theory Spec2Isabelle
  imports Main
begin

section \<open>The authentication portal's request handler (plugin.go)\<close>

text \<open>
  The development embeds \<^verbatim>\<open>AuthPortal.ServeHTTP\<close> and \<^verbatim>\<open>GetRequestID\<close> of
  \<^verbatim>\<open>plugin.go\<close>. A run of the handler is a function from the portal's configuration,
  the response headers set so far and the request to an outcome and a final state. The state holds
  the per-request option bag, the response writer, and three histories: the calls made
  to \<^verbatim>\<open>backend.Authenticate\<close> (with what each returned), the calls made to
  \<^verbatim>\<open>sessionCache.Add\<close>, and the log lines written. A Go panic is an outcome of its
  own.
\<close>

subsection \<open>Data\<close>

text \<open>\<^verbatim>\<open>jwt.UserClaims\<close>: the fields the handler reads or writes, and the subject.\<close>

record UserClaims =
  ID :: string
  Issuer :: string
  Address :: string
  Subject :: string

text \<open>
  \<^verbatim>\<open>http.Request\<close>: the method, the URL path, the parsed query (\<^verbatim>\<open>r.URL.Query()\<close>, a map
  from a key to its values: a key of a parsed query has at least one value, so the
  values are the first one and the list of the others), and the variable
  \<^verbatim>\<open>request_id\<close> of the request's context, a string where it is set.
\<close>

record request =
  Method :: string
  URL_Path :: string
  URL_Query :: "string \<rightharpoonup> string \<times> string list"
  request_id_var :: "string option"

text \<open>
  The values of a \<^verbatim>\<open>map[string]interface{}\<close>. \<open>VClaims None\<close> is a nil
  \<^verbatim>\<open>*jwt.UserClaims\<close>; \<open>VRef\<close> is a reference to a collaborator the handler only
  passes on (logger, UI factory, cookie policy, token provider, registration).
\<close>

datatype val =
    VBool bool
  | VInt int
  | VStr string
  | VStrs "string list"
  | VClaims "UserClaims option"
  | VCreds "string \<rightharpoonup> string"
  | VReq request
  | VRef string

type_synonym opts_map = "string \<rightharpoonup> val"

text \<open>
  A backend as the handler sees it: its three getters and \<^verbatim>\<open>Authenticate\<close>, which
  receives the option bag and returns a result map and an error (\<open>None\<close> is nil). A nil
  result map reads like the empty map, and the handler only reads it.
\<close>

record Backend =
  GetName :: string
  GetRealm :: string
  GetMethod :: string
  Authenticate :: "opts_map \<Rightarrow> opts_map \<times> string option"

text \<open>
  The fields of \<^verbatim>\<open>AuthPortal\<close> that \<^verbatim>\<open>ServeHTTP\<close> reads. The string
  \<open>Cookies_GetAttributes\<close> is what \<^verbatim>\<open>m.Cookies.GetAttributes()\<close> returns, and
  \<open>TokenValidator_Authorize\<close> is \<^verbatim>\<open>m.TokenValidator.Authorize(r, nil)\<close>: claims, the
  flag and the error.
\<close>

record AuthPortal =
  AuthURLPath :: string
  UserInterface_Title :: string
  UserRegistration_Disabled :: bool
  UserRegistration_Dropbox :: string
  Cookies_GetAttributes :: string
  Backends :: "Backend list"
  TokenProvider_TokenName :: string
  EnableSourceIPTracking :: bool
  TokenValidator_Authorize :: "request \<Rightarrow> UserClaims option \<times> bool \<times> string option"

text \<open>The entry points of \<^verbatim>\<open>pkg/handlers\<close> the handler hands the request to.\<close>

datatype handler =
    ServeSessionLoginRedirect
  | ServeGeneric
  | ServeRegister
  | ServeSessionLogoff
  | ServeStaticAssets
  | ServeWhoami
  | ServeSettings
  | ServePortal
  | ServeLogin

datatype fault = TypeAssertion | NilDereference

text \<open>
  How a run ends: \<open>Dispatch h\<close> is \<^verbatim>\<open>return handlers.h(w, r, opts)\<close>, \<open>ReturnNil\<close> is
  \<^verbatim>\<open>return nil\<close> after the handler wrote the response itself, \<open>Panic\<close> is a run-time
  panic (a failed type assertion, a method call or a field write on nil).
\<close>

datatype outcome = Dispatch handler | ReturnNil | Panic fault

text \<open>
  The response writer: the header map, and, once \<^verbatim>\<open>WriteHeader\<close> has been called, the
  status code with the headers as they were sent.
\<close>

record response_writer =
  headers :: "string \<rightharpoonup> string"
  written :: "(nat \<times> (string \<rightharpoonup> string)) option"

text \<open>
  The functions of \<^verbatim>\<open>pkg/utils\<close> and of the libraries that the handler calls, taken as
  parameters: \<open>ParseCredentials\<close> returns \<open>Inl\<close> the error, \<open>Inr None\<close> for nil
  credentials; \<open>path_Join\<close> is \<^verbatim>\<open>path.Join\<close>; \<open>http_Redirect\<close> is \<^verbatim>\<open>http.Redirect\<close>, from
  the response writer, the request, the target and the status code to the response
  writer it leaves; \<open>uuid_NewV4\<close> is the identifier \<^verbatim>\<open>uuid.NewV4().String()\<close> gives this
  request.
\<close>

record externals =
  GetContentType :: "request \<Rightarrow> string"
  GetSourceAddress :: "request \<Rightarrow> string"
  GetCurrentURL :: "request \<Rightarrow> string"
  ParseCredentials :: "request \<Rightarrow> string + (string \<rightharpoonup> string) option"
  path_Join :: "string list \<Rightarrow> string"
  http_Redirect :: "response_writer \<Rightarrow> request \<Rightarrow> string \<Rightarrow> nat \<Rightarrow> response_writer"
  uuid_NewV4 :: string

datatype level = Warn | Debug

datatype zfield = ZString string string | ZAny string val

type_synonym log_entry = "level \<times> string \<times> zfield list"

text \<open>One call of \<^verbatim>\<open>backend.Authenticate\<close>: the backend's name, realm and method, and
  what the call returned.\<close>

record auth_call =
  who :: "string \<times> string \<times> string"
  result :: opts_map
  error :: "string option"

text \<open>The value \<^verbatim>\<open>sessionCache.Add\<close> is given.\<close>

record cache_entry =
  claims :: UserClaims
  backend_name :: string
  backend_realm :: string
  backend_method :: string

record state =
  opts :: opts_map
  resp_writer :: response_writer
  calls :: "auth_call list"
  cache_adds :: "(string \<times> cache_entry) list"
  logs :: "log_entry list"

subsection \<open>Library functions\<close>

definition redirectToToken :: string where
  "redirectToToken = ''AUTH_PORTAL_REDIRECT_URL''"

definition HasPrefix :: "string \<Rightarrow> string \<Rightarrow> bool" where
  "HasPrefix s p = (take (length p) s = p)"

definition TrimPrefix :: "string \<Rightarrow> string \<Rightarrow> string" where
  "TrimPrefix s p = (if HasPrefix s p then drop (length p) s else s)"

text \<open>\<^verbatim>\<open>strings.Split(s, sep)\<close> for a separator of one character: one more piece than
  there are separators, so never an empty list.\<close>

fun strings_Split :: "string \<Rightarrow> char \<Rightarrow> string list" where
  "strings_Split [] c = [[]]"
| "strings_Split (x # xs) c =
     (if x = c then [] # strings_Split xs c
      else (case strings_Split xs c of
              [] \<Rightarrow> [[x]]
            | p # ps \<Rightarrow> (x # p) # ps))"

text \<open>\<^verbatim>\<open>w.Header().Set\<close> replaces the header; \<^verbatim>\<open>w.WriteHeader\<close> sends the status and
  the headers as they are now, once.\<close>

definition Header_Set :: "response_writer \<Rightarrow> string \<Rightarrow> string \<Rightarrow> response_writer" where
  "Header_Set rw k v = rw\<lparr>headers := (headers rw)(k \<mapsto> v)\<rparr>"

definition WriteHeader :: "response_writer \<Rightarrow> nat \<Rightarrow> response_writer" where
  "WriteHeader rw c =
     (case written rw of
        None \<Rightarrow> rw\<lparr>written := Some (c, headers rw)\<rparr>
      | Some _ \<Rightarrow> rw)"

subsection \<open>GetRequestID\<close>

text \<open>The identifier stored in the request's context, or a fresh one when there is none.\<close>

definition GetRequestID :: "externals \<Rightarrow> request \<Rightarrow> string" where
  "GetRequestID e r =
     (case request_id_var r of
        None \<Rightarrow> uuid_NewV4 e
      | Some rawRequestID \<Rightarrow> rawRequestID)"

subsection \<open>ServeHTTP\<close>

text \<open>Lines 110 to 125: the option bag at the start of a request.\<close>

definition initial_opts :: "AuthPortal \<Rightarrow> externals \<Rightarrow> request \<Rightarrow> string \<Rightarrow> opts_map" where
  "initial_opts m e r reqID =
     (let o1 = Map.empty
            (''request_id'' \<mapsto> VStr reqID,
             ''content_type'' \<mapsto> VStr (GetContentType e r),
             ''authenticated'' \<mapsto> VBool False,
             ''auth_backend_found'' \<mapsto> VBool False,
             ''auth_credentials_found'' \<mapsto> VBool False,
             ''logger'' \<mapsto> VRef ''logger'',
             ''auth_url_path'' \<mapsto> VStr (AuthURLPath m),
             ''ui'' \<mapsto> VRef ''uiFactory'',
             ''cookies'' \<mapsto> VRef ''Cookies'',
             ''cookie_names'' \<mapsto> VStrs [redirectToToken, TokenProvider_TokenName m],
             ''token_provider'' \<mapsto> VRef ''TokenProvider'');
          o2 = (if UserInterface_Title m \<noteq> ''''
                then o1(''ui_title'' \<mapsto> VStr (UserInterface_Title m)) else o1)
      in o2(''redirect_token_name'' \<mapsto> VStr redirectToToken))"

text \<open>The server hands the handler a response writer that has not been written yet;
  \<open>hdrs\<close> are the headers it holds then.\<close>

definition initial_state ::
  "AuthPortal \<Rightarrow> externals \<Rightarrow> (string \<rightharpoonup> string) \<Rightarrow> request \<Rightarrow> state" where
  "initial_state m e hdrs r =
     \<lparr>opts = initial_opts m e r (GetRequestID e r),
      resp_writer = \<lparr>headers = hdrs, written = None\<rparr>,
      calls = [], cache_adds = [], logs = []\<rparr>"

text \<open>Lines 131 to 138: the validator rejects the token and its error reads as expired.\<close>

definition token_expired :: "AuthPortal \<Rightarrow> request \<Rightarrow> bool" where
  "token_expired m r =
     (case TokenValidator_Authorize m r of
        (cl, authOK, err) \<Rightarrow> \<not> authOK \<and> err = Some ''[Token is expired]'')"

text \<open>
  Lines 131 to 148: the token validator. \<open>Some out\<close> is a return from the handler,
  \<open>None\<close> goes on to the next statement.
\<close>

definition validate_token ::
  "AuthPortal \<Rightarrow> externals \<Rightarrow> request \<Rightarrow> string \<Rightarrow> state \<Rightarrow> outcome option \<times> state" where
  "validate_token m e r reqID s =
     (case TokenValidator_Authorize m r of
        (cl, authOK, err) \<Rightarrow>
          if authOK
          then (None, s\<lparr>opts := (opts s)(''authenticated'' \<mapsto> VBool True,
                                           ''user_claims'' \<mapsto> VClaims cl)\<rparr>)
          else (case err of
                  None \<Rightarrow> (None, s)
                | Some msg \<Rightarrow>
                    if msg = ''[Token is expired]''
                    then (Some (Dispatch ServeSessionLoginRedirect), s)
                    else if msg = ''no token found''
                    then (None, s)
                    else (None, s\<lparr>logs := logs s @
                            [(Warn, ''Authorization failed'',
                              [ZString ''request_id'' reqID,
                               ZAny ''error'' (VStr msg),
                               ZString ''src_ip_address'' (GetSourceAddress e r)])]\<rparr>)))"

definition delegated_prefix :: "string \<Rightarrow> bool" where
  "delegated_prefix urlPath =
     (HasPrefix urlPath ''saml'' \<or> HasPrefix urlPath ''x509'' \<or> HasPrefix urlPath ''oauth2'')"

text \<open>Lines 151 to 165: the query parameters of a GET request.\<close>

definition query_params ::
  "AuthPortal \<Rightarrow> request \<Rightarrow> string \<Rightarrow> state \<Rightarrow> outcome option \<times> state" where
  "query_params m r urlPath s =
     (if Method r = ''GET''
      then (case URL_Query r ''redirect_url'' of
              None \<Rightarrow> (None, s)
            | Some (redirectURL0, _) \<Rightarrow>
                (let s1 = s\<lparr>resp_writer := Header_Set (resp_writer s) ''Set-Cookie''
                              (redirectToToken @ ''='' @ redirectURL0 @ '';''
                                 @ Cookies_GetAttributes m)\<rparr>
                 in if \<not> delegated_prefix urlPath
                    then (Some ReturnNil,
                          s1\<lparr>resp_writer :=
                               WriteHeader (Header_Set (resp_writer s1) ''Location'' (AuthURLPath m))
                                 302\<rparr>)
                    else (None, s1)))
      else (None, s))"

text \<open>
  Lines 256 to 263 and 309 to 316, the same statements in both flows: stamp the issuer,
  the source address when it is tracked, and the request's identifier when the claims
  have none.
\<close>

definition stamp_claims ::
  "AuthPortal \<Rightarrow> externals \<Rightarrow> request \<Rightarrow> string \<Rightarrow> UserClaims \<Rightarrow> UserClaims" where
  "stamp_claims m e r reqID c =
     (let c1 = c\<lparr>Issuer := GetCurrentURL e r\<rparr>;
          c2 = (if EnableSourceIPTracking m then c1\<lparr>Address := GetSourceAddress e r\<rparr> else c1)
      in if ID c2 = '''' then c2\<lparr>ID := reqID\<rparr> else c2)"

definition new_entry :: "Backend \<Rightarrow> UserClaims \<Rightarrow> cache_entry" where
  "new_entry b c =
     \<lparr>claims = c, backend_name = GetName b, backend_realm = GetRealm b,
      backend_method = GetMethod b\<rparr>"

definition record_call :: "Backend \<Rightarrow> opts_map \<times> string option \<Rightarrow> auth_call" where
  "record_call b ra =
     \<lparr>who = (GetName b, GetRealm b, GetMethod b), result = fst ra, error = snd ra\<rparr>"

subsubsection \<open>The delegated-backend flow (lines 203 to 284)\<close>

text \<open>
  Lines 225 to 235 and lines 243 to 253 are the same statements; the first runs with a
  non-nil \<^verbatim>\<open>err\<close>, the second after \<^verbatim>\<open>err\<close> was found nil. \<^verbatim>\<open>resp["code"].(int)\<close>
  panics unless the entry is an integer, and \<^verbatim>\<open>err.Error()\<close>, an argument of the
  logging call, panics on a nil \<^verbatim>\<open>err\<close> before anything is logged.
\<close>

definition auth_failed ::
  "string \<Rightarrow> string \<Rightarrow> string \<Rightarrow> opts_map \<Rightarrow> string option \<Rightarrow> state \<Rightarrow> outcome \<times> state" where
  "auth_failed reqID reqBackendMethod reqBackendRealm resp err s =
     (let s1 = s\<lparr>opts := (opts s)(''flow'' \<mapsto> VStr ''auth_failed'',
                                     ''authenticated'' \<mapsto> VBool False,
                                     ''message'' \<mapsto> VStr ''Authentication failed'')\<rparr>
      in case resp ''code'' of
           Some (VInt code) \<Rightarrow>
             (let s2 = s1\<lparr>opts := (opts s1)(''status_code'' \<mapsto> VInt code)\<rparr>
              in case err of
                   None \<Rightarrow> (Panic NilDereference, s2)
                 | Some msg \<Rightarrow>
                     (Dispatch ServeGeneric,
                      s2\<lparr>logs := logs s2 @
                           [(Warn, ''Authentication failed'',
                             [ZString ''request_id'' reqID,
                              ZString ''auth_method'' reqBackendMethod,
                              ZString ''auth_realm'' reqBackendRealm,
                              ZString ''error'' msg])]\<rparr>))
         | _ \<Rightarrow> (Panic TypeAssertion, s1))"

text \<open>Lines 221 to 279: the body of the loop for the backend whose realm and method match.\<close>

definition delegated_auth ::
  "AuthPortal \<Rightarrow> externals \<Rightarrow> request \<Rightarrow> string \<Rightarrow> string \<Rightarrow> string \<Rightarrow> Backend \<Rightarrow> state
     \<Rightarrow> outcome \<times> state" where
  "delegated_auth m e r reqID reqBackendMethod reqBackendRealm backend s =
     (let o1 = (opts s)(''request'' \<mapsto> VReq r,
                        ''request_path'' \<mapsto>
                           VStr (path_Join e [AuthURLPath m, reqBackendMethod, reqBackendRealm]));
          ra = Authenticate backend o1;
          resp = fst ra;
          err = snd ra;
          s1 = s\<lparr>opts := o1, calls := calls s @ [record_call backend ra]\<rparr>
      in if err \<noteq> None
         then auth_failed reqID reqBackendMethod reqBackendRealm resp err s1
         else (case resp ''redirect_url'' of
                 Some v \<Rightarrow>
                   (case v of
                      VStr url \<Rightarrow>
                        (ReturnNil, s1\<lparr>resp_writer := http_Redirect e (resp_writer s1) r url 308\<rparr>)
                    | _ \<Rightarrow> (Panic TypeAssertion, s1))
               | None \<Rightarrow>
                   (case resp ''claims'' of
                      None \<Rightarrow> auth_failed reqID reqBackendMethod reqBackendRealm resp err s1
                    | Some (VClaims (Some c0)) \<Rightarrow>
                        (let c = stamp_claims m e r reqID c0
                         in (Dispatch ServeLogin,
                             s1\<lparr>cache_adds := cache_adds s1 @ [(ID c, new_entry backend c)],
                                opts := (opts s1)(''authenticated'' \<mapsto> VBool True,
                                                  ''user_claims'' \<mapsto> VClaims (Some c),
                                                  ''status_code'' \<mapsto> VInt 200),
                                logs := logs s1 @
                                  [(Debug, ''Authentication succeeded'',
                                    [ZString ''request_id'' reqID,
                                     ZString ''auth_method'' reqBackendMethod,
                                     ZString ''auth_realm'' reqBackendRealm,
                                     ZAny ''user'' (VClaims (Some c))])]\<rparr>))
                    | Some (VClaims None) \<Rightarrow> (Panic NilDereference, s1)
                    | Some _ \<Rightarrow> (Panic TypeAssertion, s1))))"

text \<open>Lines 214 to 284: the first backend of the pair is tried and the loop returns;
  without one the flow is \<^verbatim>\<open>backend_not_found\<close>.\<close>

fun delegated_loop ::
  "AuthPortal \<Rightarrow> externals \<Rightarrow> request \<Rightarrow> string \<Rightarrow> string \<Rightarrow> string \<Rightarrow> Backend list \<Rightarrow> state
     \<Rightarrow> outcome \<times> state" where
  "delegated_loop m e r reqID reqBackendMethod reqBackendRealm [] s =
     (Dispatch ServeGeneric,
      s\<lparr>opts := (opts s)(''status_code'' \<mapsto> VInt 400,
                          ''flow'' \<mapsto> VStr ''backend_not_found'',
                          ''authenticated'' \<mapsto> VBool False)\<rparr>)"
| "delegated_loop m e r reqID reqBackendMethod reqBackendRealm (backend # rest) s =
     (if GetRealm backend \<noteq> reqBackendRealm
      then delegated_loop m e r reqID reqBackendMethod reqBackendRealm rest s
      else if GetMethod backend \<noteq> reqBackendMethod
      then delegated_loop m e r reqID reqBackendMethod reqBackendRealm rest s
      else delegated_auth m e r reqID reqBackendMethod reqBackendRealm backend s)"

definition delegated_flow ::
  "AuthPortal \<Rightarrow> externals \<Rightarrow> request \<Rightarrow> string \<Rightarrow> string \<Rightarrow> state \<Rightarrow> outcome \<times> state" where
  "delegated_flow m e r reqID urlPath s =
     (let urlPathParts = strings_Split urlPath CHR ''/''
      in if length urlPathParts < 2
         then (Dispatch ServeGeneric,
               s\<lparr>opts := (opts s)(''status_code'' \<mapsto> VInt 400,
                                   ''flow'' \<mapsto> VStr ''malformed_backend'',
                                   ''authenticated'' \<mapsto> VBool False)\<rparr>)
         else (let reqBackendMethod = urlPathParts ! 0;
                   reqBackendRealm = urlPathParts ! 1
               in delegated_loop m e r reqID reqBackendMethod reqBackendRealm (Backends m)
                    (s\<lparr>opts := (opts s)(''flow'' \<mapsto> VStr reqBackendMethod)\<rparr>)))"

subsubsection \<open>The interactive login flow (lines 285 to 349)\<close>

text \<open>\<^verbatim>\<open>credentials["realm"]\<close>: a missing key of a \<^verbatim>\<open>map[string]string\<close> reads as the
  empty string.\<close>

definition credentials_realm :: "(string \<rightharpoonup> string) \<Rightarrow> string" where
  "credentials_realm credentials =
     (case credentials ''realm'' of None \<Rightarrow> '''' | Some v \<Rightarrow> v)"

text \<open>
  Lines 299 to 330: the body of the loop for a backend of the credentials' realm.
  \<open>Inl\<close> is a panic, with the state it leaves.
\<close>

definition login_attempt ::
  "AuthPortal \<Rightarrow> externals \<Rightarrow> request \<Rightarrow> string \<Rightarrow> (string \<rightharpoonup> string) \<Rightarrow> Backend \<Rightarrow> state
     \<Rightarrow> (fault \<times> state) + state" where
  "login_attempt m e r reqID credentials backend s =
     (let o1 = (opts s)(''auth_backend_found'' \<mapsto> VBool True,
                        ''auth_credentials'' \<mapsto> VCreds credentials);
          ra = Authenticate backend o1;
          resp = fst ra;
          s1 = s\<lparr>opts := o1, calls := calls s @ [record_call backend ra]\<rparr>
      in case snd ra of
           Some msg \<Rightarrow>
             (let s2 = s1\<lparr>opts := (opts s1)(''message'' \<mapsto> VStr ''Authentication failed'')\<rparr>
              in case resp ''code'' of
                   Some (VInt code) \<Rightarrow>
                     Inr (s2\<lparr>opts := (opts s2)(''status_code'' \<mapsto> VInt code),
                             logs := logs s2 @
                               [(Warn, ''Authentication failed'',
                                 [ZString ''request_id'' reqID, ZString ''error'' msg])]\<rparr>)
                 | _ \<Rightarrow> Inl (TypeAssertion, s2))
         | None \<Rightarrow>
             (case resp ''claims'' of
                Some (VClaims (Some c0)) \<Rightarrow>
                  (let c = stamp_claims m e r reqID c0
                   in Inr (s1\<lparr>cache_adds := cache_adds s1 @ [(ID c, new_entry backend c)],
                              opts := (opts s1)(''user_claims'' \<mapsto> VClaims (Some c),
                                                ''authenticated'' \<mapsto> VBool True,
                                                ''status_code'' \<mapsto> VInt 200),
                              logs := logs s1 @
                                [(Debug, ''Authentication succeeded'',
                                  [ZString ''request_id'' reqID,
                                   ZAny ''user'' (VClaims (Some c))])]\<rparr>))
              | Some (VClaims None) \<Rightarrow> Inl (NilDereference, s1)
              | _ \<Rightarrow> Inl (TypeAssertion, s1)))"

text \<open>Lines 295 to 331: every backend of the credentials' realm is tried, in the order
  of the configuration.\<close>

fun login_loop ::
  "AuthPortal \<Rightarrow> externals \<Rightarrow> request \<Rightarrow> string \<Rightarrow> (string \<rightharpoonup> string) \<Rightarrow> Backend list \<Rightarrow> state
     \<Rightarrow> (fault \<times> state) + state" where
  "login_loop m e r reqID credentials [] s = Inr s"
| "login_loop m e r reqID credentials (backend # rest) s =
     (if GetRealm backend \<noteq> credentials_realm credentials
      then login_loop m e r reqID credentials rest s
      else (case login_attempt m e r reqID credentials backend s of
              Inl p \<Rightarrow> Inl p
            | Inr s' \<Rightarrow> login_loop m e r reqID credentials rest s'))"

definition login_flow ::
  "AuthPortal \<Rightarrow> externals \<Rightarrow> request \<Rightarrow> string \<Rightarrow> state \<Rightarrow> outcome \<times> state" where
  "login_flow m e r reqID s =
     (let s1 = s\<lparr>opts := (opts s)(''flow'' \<mapsto> VStr ''login'',
                                     ''login_options'' \<mapsto> VRef ''loginOptions'')\<rparr>
      in case opts s1 ''authenticated'' of
           Some (VBool authenticated) \<Rightarrow>
             if authenticated
             then (Dispatch ServeLogin,
                   s1\<lparr>opts := (opts s1)(''authorized'' \<mapsto> VBool True)\<rparr>)
             else (case ParseCredentials e r of
                     Inl msg \<Rightarrow>
                       (Dispatch ServeLogin,
                        s1\<lparr>opts := (opts s1)(''message'' \<mapsto> VStr ''Authentication failed'',
                                             ''status_code'' \<mapsto> VInt 400),
                           logs := logs s1 @
                             [(Warn, ''Authentication failed'',
                               [ZString ''request_id'' reqID, ZString ''error'' msg])]\<rparr>)
                   | Inr None \<Rightarrow> (Dispatch ServeLogin, s1)
                   | Inr (Some credentials) \<Rightarrow>
                       (case login_loop m e r reqID credentials (Backends m)
                               (s1\<lparr>opts := (opts s1)(''auth_credentials_found'' \<mapsto> VBool True)\<rparr>) of
                          Inl (f, s2) \<Rightarrow> (Panic f, s2)
                        | Inr s2 \<Rightarrow>
                            (case opts s2 ''auth_backend_found'' of
                               Some (VBool found) \<Rightarrow>
                                 if \<not> found
                                 then (Dispatch ServeLogin,
                                       s2\<lparr>opts := (opts s2)(''status_code'' \<mapsto> VInt 500),
                                          logs := logs s2 @
                                            [(Warn, ''Authentication failed'',
                                              [ZString ''request_id'' reqID,
                                               ZString ''error''
                                                 ''no matching auth backend found''])]\<rparr>)
                                 else (Dispatch ServeLogin, s2)
                             | _ \<Rightarrow> (Panic TypeAssertion, s2))))
         | _ \<Rightarrow> (Panic TypeAssertion, s1))"

subsubsection \<open>Routing (lines 168 to 353) and the handler\<close>

definition set_flow :: "string \<Rightarrow> state \<Rightarrow> state" where
  "set_flow f s = s\<lparr>opts := (opts s)(''flow'' \<mapsto> VStr f)\<rparr>"

definition route ::
  "AuthPortal \<Rightarrow> externals \<Rightarrow> request \<Rightarrow> string \<Rightarrow> string \<Rightarrow> state \<Rightarrow> outcome \<times> state" where
  "route m e r reqID urlPath s =
     (if HasPrefix urlPath ''register''
      then (if UserRegistration_Disabled m
            then (Dispatch ServeGeneric, set_flow ''unsupported_feature'' s)
            else if UserRegistration_Dropbox m = ''''
            then (Dispatch ServeGeneric, set_flow ''unsupported_feature'' s)
            else (Dispatch ServeRegister,
                  s\<lparr>opts := (opts s)(''flow'' \<mapsto> VStr ''register'',
                                      ''registration'' \<mapsto> VRef ''UserRegistration'',
                                      ''registration_db'' \<mapsto> VRef ''UserRegistrationDatabase'')\<rparr>))
      else if HasPrefix urlPath ''recover'' \<or> HasPrefix urlPath ''forgot''
      then (Dispatch ServeGeneric, set_flow ''unsupported_feature'' s)
      else if HasPrefix urlPath ''logout'' \<or> HasPrefix urlPath ''logoff''
      then (Dispatch ServeSessionLogoff, set_flow ''logout'' s)
      else if HasPrefix urlPath ''assets''
      then (Dispatch ServeStaticAssets, set_flow ''assets'' s)
      else if HasPrefix urlPath ''whoami''
      then (Dispatch ServeWhoami, set_flow ''whoami'' s)
      else if HasPrefix urlPath ''settings''
      then (Dispatch ServeSettings, set_flow ''settings'' s)
      else if HasPrefix urlPath ''portal''
      then (Dispatch ServePortal, set_flow ''portal'' s)
      else if HasPrefix urlPath ''saml'' \<or> HasPrefix urlPath ''x509''
                \<or> HasPrefix urlPath ''oauth2''
      then delegated_flow m e r reqID urlPath s
      else if HasPrefix urlPath ''login'' \<or> urlPath = ''''
      then login_flow m e r reqID s
      else (Dispatch ServeGeneric, set_flow ''not_found'' s))"

text \<open>Lines 127 and 128.\<close>

definition url_path :: "AuthPortal \<Rightarrow> request \<Rightarrow> string" where
  "url_path m r = TrimPrefix (TrimPrefix (URL_Path r) (AuthURLPath m)) ''/''"

definition ServeHTTP ::
  "AuthPortal \<Rightarrow> externals \<Rightarrow> (string \<rightharpoonup> string) \<Rightarrow> request \<Rightarrow> outcome \<times> state" where
  "ServeHTTP m e hdrs r =
     (let reqID = GetRequestID e r;
          urlPath = url_path m r
      in case validate_token m e r reqID (initial_state m e hdrs r) of
           (Some out, s) \<Rightarrow> (out, s)
         | (None, s) \<Rightarrow>
             (case query_params m r urlPath s of
                (Some out, s') \<Rightarrow> (out, s')
              | (None, s') \<Rightarrow> route m e r reqID urlPath s'))"

subsection \<open>The session cache\<close>

text \<open>
  Modelled from the spec: \<^verbatim>\<open>pkg/cache\<close> (\<^verbatim>\<open>cache.SessionCache\<close>, its \<^verbatim>\<open>Add\<close> and its
  lookup) is not among the sources. The spec's data model gives the cache as a store from
  a session identifier to an entry, with at most one entry for an identifier: adding
  under an identifier that has an entry overwrites it.
\<close>

type_synonym SessionCache = "string \<rightharpoonup> cache_entry"

definition SessionCache_Add :: "SessionCache \<Rightarrow> string \<Rightarrow> cache_entry \<Rightarrow> SessionCache" where
  "SessionCache_Add c k v = c(k \<mapsto> v)"

definition SessionCache_Get :: "SessionCache \<Rightarrow> string \<Rightarrow> cache_entry option" where
  "SessionCache_Get c k = c k"

text \<open>The cache after the \<^verbatim>\<open>Add\<close> calls of a run, made in their order.\<close>

fun cache_after :: "SessionCache \<Rightarrow> (string \<times> cache_entry) list \<Rightarrow> SessionCache" where
  "cache_after c [] = c"
| "cache_after c ((k, v) # adds) = cache_after (SessionCache_Add c k v) adds"

text \<open>What a lookup finds after a run that started with the cache \<open>c\<close>.\<close>

definition cache_lookup_after ::
  "SessionCache \<Rightarrow> state \<Rightarrow> string \<Rightarrow> cache_entry option" where
  "cache_lookup_after c s k = SessionCache_Get (cache_after c (cache_adds s)) k"

subsection \<open>The state at the stages of a run\<close>

definition token_state ::
  "AuthPortal \<Rightarrow> externals \<Rightarrow> (string \<rightharpoonup> string) \<Rightarrow> request \<Rightarrow> state" where
  "token_state m e hdrs r =
     snd (validate_token m e r (GetRequestID e r) (initial_state m e hdrs r))"

definition routing_state ::
  "AuthPortal \<Rightarrow> externals \<Rightarrow> (string \<rightharpoonup> string) \<Rightarrow> request \<Rightarrow> state" where
  "routing_state m e hdrs r =
     snd (query_params m r (url_path m r) (token_state m e hdrs r))"

text \<open>The validator accepted the token: \<^verbatim>\<open>authOK\<close> of line 131.\<close>

definition token_accepted :: "AuthPortal \<Rightarrow> request \<Rightarrow> bool" where
  "token_accepted m r = fst (snd (TokenValidator_Authorize m r))"

text \<open>A GET request with a \<^verbatim>\<open>redirect_url\<close> parameter (lines 151 to 157).\<close>

definition redirect_query :: "request \<Rightarrow> bool" where
  "redirect_query r = (Method r = ''GET'' \<and> URL_Query r ''redirect_url'' \<noteq> None)"

text \<open>The condition of line 285.\<close>

definition login_path :: "string \<Rightarrow> bool" where
  "login_path urlPath = (HasPrefix urlPath ''login'' \<or> urlPath = [])"

subsection \<open>Reading the histories\<close>

text \<open>\<^verbatim>\<open>resp["code"].(int)\<close>: the integer, when the entry is one.\<close>

definition code_of :: "opts_map \<Rightarrow> int option" where
  "code_of resp = (case resp ''code'' of Some (VInt code) \<Rightarrow> Some code | _ \<Rightarrow> None)"

text \<open>\<^verbatim>\<open>resp["claims"].(*jwt.UserClaims)\<close>: the claims, when the entry is a non-nil pointer
  to claims.\<close>

definition claims_of :: "opts_map \<Rightarrow> UserClaims option" where
  "claims_of resp = (case resp ''claims'' of Some (VClaims (Some c)) \<Rightarrow> Some c | _ \<Rightarrow> None)"

text \<open>What the three getters of a backend return.\<close>

definition backend_id :: "Backend \<Rightarrow> string \<times> string \<times> string" where
  "backend_id b = (GetName b, GetRealm b, GetMethod b)"

text \<open>A call whose result the handler processes without a panic: an error comes with
  an integer code, a nil error with claims.\<close>

definition call_ok :: "auth_call \<Rightarrow> bool" where
  "call_ok c =
     (case error c of
        Some msg \<Rightarrow> code_of (result c) \<noteq> None
      | None \<Rightarrow> claims_of (result c) \<noteq> None)"

text \<open>
  The \<^verbatim>\<open>sessionCache.Add\<close> of lines 264 to 269 and of lines 317 to 322, from the call
  that led to it: the stamped claims under their identifier, with the name, realm and
  method of the backend called. A call that returned an error or no claims adds nothing.
\<close>

definition entry_of_call ::
  "AuthPortal \<Rightarrow> externals \<Rightarrow> request \<Rightarrow> auth_call \<Rightarrow> (string \<times> cache_entry) list" where
  "entry_of_call m e r c =
     (case error c of
        Some msg \<Rightarrow> []
      | None \<Rightarrow>
          (case claims_of (result c) of
             None \<Rightarrow> []
           | Some c0 \<Rightarrow>
               [(ID (stamp_claims m e r (GetRequestID e r) c0),
                 \<lparr>claims = stamp_claims m e r (GetRequestID e r) c0,
                  backend_name = fst (who c),
                  backend_realm = fst (snd (who c)),
                  backend_method = snd (snd (who c))\<rparr>)]))"

text \<open>The option bag a backend of the login flow receives (lines 299 and 300), and the
  one a backend of the delegated flow receives (lines 221 and 222).\<close>

definition attempt_opts :: "state \<Rightarrow> (string \<rightharpoonup> string) \<Rightarrow> opts_map" where
  "attempt_opts s creds =
     (opts s)(''auth_backend_found'' \<mapsto> VBool True, ''auth_credentials'' \<mapsto> VCreds creds)"

definition delegated_opts ::
  "AuthPortal \<Rightarrow> externals \<Rightarrow> request \<Rightarrow> string \<Rightarrow> string \<Rightarrow> state \<Rightarrow> opts_map" where
  "delegated_opts m e r reqBackendMethod reqBackendRealm s =
     (opts s)(''request'' \<mapsto> VReq r,
              ''request_path'' \<mapsto>
                 VStr (path_Join e [AuthURLPath m, reqBackendMethod, reqBackendRealm]))"

text \<open>The state a login attempt or the loop leaves, whether it panicked or not.\<close>

definition attempt_state :: "(fault \<times> state) + state \<Rightarrow> state" where
  "attempt_state res = (case res of Inl (f, s) \<Rightarrow> s | Inr s \<Rightarrow> s)"

text \<open>The state in which the loop over the backends of the login flow starts (lines 286
  to 294), and the statements after the loop (lines 332 to 349).\<close>

definition login_start ::
  "AuthPortal \<Rightarrow> externals \<Rightarrow> (string \<rightharpoonup> string) \<Rightarrow> request \<Rightarrow> state" where
  "login_start m e hdrs r =
     (routing_state m e hdrs r)
       \<lparr>opts := (opts (routing_state m e hdrs r))
                  (''flow'' \<mapsto> VStr ''login'',
                   ''login_options'' \<mapsto> VRef ''loginOptions'',
                   ''auth_credentials_found'' \<mapsto> VBool True)\<rparr>"

definition login_finish :: "string \<Rightarrow> (fault \<times> state) + state \<Rightarrow> outcome \<times> state" where
  "login_finish reqID res =
     (case res of
        Inl (f, s2) \<Rightarrow> (Panic f, s2)
      | Inr s2 \<Rightarrow>
          (case opts s2 ''auth_backend_found'' of
             Some (VBool found) \<Rightarrow>
               if \<not> found
               then (Dispatch ServeLogin,
                     s2\<lparr>opts := (opts s2)(''status_code'' \<mapsto> VInt 500),
                        logs := logs s2 @
                          [(Warn, ''Authentication failed'',
                            [ZString ''request_id'' reqID,
                             ZString ''error'' ''no matching auth backend found''])]\<rparr>)
               else (Dispatch ServeLogin, s2)
           | _ \<Rightarrow> (Panic TypeAssertion, s2)))"

subsection \<open>A portal, backends and requests for the examples\<close>

text \<open>
  The parameters of the examples: \<open>path_Join\<close> joins the non-empty elements with a
  slash, as \<^verbatim>\<open>path.Join\<close> does for elements that are clean already; \<open>http_Redirect\<close>
  sends the target as it is given, as \<^verbatim>\<open>http.Redirect\<close> does for an absolute URL.
\<close>

definition ex_externals :: externals where
  "ex_externals =
     \<lparr>GetContentType = (\<lambda>r. ''text/html''),
      GetSourceAddress = (\<lambda>r. ''192.0.2.7''),
      GetCurrentURL = (\<lambda>r. ''https://portal.example/auth''),
      ParseCredentials =
        (\<lambda>r. if Method r = ''POST''
             then Inr (Some [''realm'' \<mapsto> ''corp'', ''username'' \<mapsto> ''alice''])
             else Inr None),
      path_Join =
        (\<lambda>xs. case filter (\<lambda>x. x \<noteq> []) xs of
                [] \<Rightarrow> []
              | y # ys \<Rightarrow> y @ concat (map (\<lambda>z. CHR ''/'' # z) ys)),
      http_Redirect =
        (\<lambda>rw r url c.
           WriteHeader
             (Header_Set
                (if (Method r = ''GET'' \<or> Method r = ''HEAD'')
                      \<and> headers rw ''Content-Type'' = None
                 then Header_Set rw ''Content-Type'' ''text/html; charset=utf-8'' else rw)
                ''Location'' url) c),
      uuid_NewV4 = ''1b4e28ba-2fa1-41d2-883f-0016d3cca427''\<rparr>"

definition ex_portal ::
  "Backend list \<Rightarrow> UserClaims option \<times> bool \<times> string option \<Rightarrow> AuthPortal" where
  "ex_portal bs tok =
     \<lparr>AuthURLPath = ''/auth'', UserInterface_Title = ''Sign In'',
      UserRegistration_Disabled = True, UserRegistration_Dropbox = [],
      Cookies_GetAttributes = ''Path=/;Secure'', Backends = bs,
      TokenProvider_TokenName = ''access_token'', EnableSourceIPTracking = False,
      TokenValidator_Authorize = (\<lambda>r. tok)\<rparr>"

definition ex_backend ::
  "string \<Rightarrow> string \<Rightarrow> string \<Rightarrow> opts_map \<times> string option \<Rightarrow> Backend" where
  "ex_backend name realm method ra =
     \<lparr>GetName = name, GetRealm = realm, GetMethod = method, Authenticate = (\<lambda>o1. ra)\<rparr>"

definition ex_claims :: "string \<Rightarrow> UserClaims" where
  "ex_claims ident = \<lparr>ID = ident, Issuer = [], Address = [], Subject = ''alice''\<rparr>"

definition ex_request ::
  "string \<Rightarrow> string \<Rightarrow> (string \<rightharpoonup> string \<times> string list) \<Rightarrow> string option \<Rightarrow> request" where
  "ex_request meth p q rid =
     \<lparr>Method = meth, URL_Path = p, URL_Query = q, request_id_var = rid\<rparr>"

definition no_token :: "UserClaims option \<times> bool \<times> string option" where
  "no_token = (None, False, Some ''no token found'')"

definition valid_token :: "UserClaims option \<times> bool \<times> string option" where
  "valid_token = (Some (ex_claims ''alice''), True, None)"

definition expired_token :: "UserClaims option \<times> bool \<times> string option" where
  "expired_token = (None, False, Some ''[Token is expired]'')"

text \<open>
  A portal with two backends of the realm \<^verbatim>\<open>corp\<close>, given with what each returns, and
  between them a backend of another realm; a portal with one OAuth 2.0 backend of the
  realm \<^verbatim>\<open>google\<close>; the requests sent to them.
\<close>

definition corp_portal ::
  "opts_map \<times> string option \<Rightarrow> opts_map \<times> string option
     \<Rightarrow> UserClaims option \<times> bool \<times> string option \<Rightarrow> AuthPortal" where
  "corp_portal ra1 ra2 tok =
     ex_portal
       [ex_backend ''ldap-corp'' ''corp'' ''ldap'' ra1,
        ex_backend ''google-oauth'' ''google'' ''oauth2''
          ([''claims'' \<mapsto> VClaims (Some (ex_claims ''alice''))], None),
        ex_backend ''local-corp'' ''corp'' ''local'' ra2]
       tok"

definition accepts :: "string \<Rightarrow> opts_map \<times> string option" where
  "accepts ident = ([''claims'' \<mapsto> VClaims (Some (ex_claims ident))], None)"

definition refuses :: "opts_map \<times> string option" where
  "refuses = ([''code'' \<mapsto> VInt 401], Some ''invalid credentials'')"

definition login_post :: request where
  "login_post = ex_request ''POST'' ''/auth/login'' Map.empty None"

definition corp_credentials :: "string \<rightharpoonup> string" where
  "corp_credentials = [''realm'' \<mapsto> ''corp'', ''username'' \<mapsto> ''alice'']"

definition google_portal :: "opts_map \<times> string option \<Rightarrow> AuthPortal" where
  "google_portal ra = ex_portal [ex_backend ''google-oauth'' ''google'' ''oauth2'' ra] no_token"

definition google_request :: "string option \<Rightarrow> request" where
  "google_request rid = ex_request ''POST'' ''/auth/oauth2/google'' Map.empty rid"

text \<open>The record of a call to a backend of these portals.\<close>

definition call_of :: "string \<times> string \<times> string \<Rightarrow> opts_map \<times> string option \<Rightarrow> auth_call" where
  "call_of b ra = \<lparr>who = b, result = fst ra, error = snd ra\<rparr>"


section \<open>Properties\<close>

subsection \<open>Prefixes and routing\<close>

lemma HasPrefix_both:
  assumes "HasPrefix s p" "HasPrefix s q"
  shows "take (min (length p) (length q)) p = take (min (length p) (length q)) q"
proof -
  have "take (min (length p) (length q)) p = take (min (length p) (length q)) s"
    using assms(1) by (metis HasPrefix_def min.cobounded1 take_take min.absorb1)
  moreover have "take (min (length p) (length q)) q = take (min (length p) (length q)) s"
    using assms(2) by (metis HasPrefix_def min.cobounded2 take_take min.absorb1)
  ultimately show ?thesis by simp
qed

lemma HasPrefix_empty: "HasPrefix [] (c # p) = False"
  by (simp add: HasPrefix_def)

lemma delegated_not_static:
  assumes "delegated_prefix u"
  shows "\<not> HasPrefix u ''register''" "\<not> HasPrefix u ''recover''" "\<not> HasPrefix u ''forgot''"
    "\<not> HasPrefix u ''logout''" "\<not> HasPrefix u ''logoff''" "\<not> HasPrefix u ''assets''"
    "\<not> HasPrefix u ''whoami''" "\<not> HasPrefix u ''settings''" "\<not> HasPrefix u ''portal''"
  using assms unfolding delegated_prefix_def by (auto dest: HasPrefix_both)

lemma route_delegated:
  "delegated_prefix u \<Longrightarrow> route m e r reqID u s = delegated_flow m e r reqID u s"
  using delegated_not_static [of u]
  by (simp add: route_def delegated_prefix_def)

lemma login_not_other:
  assumes "login_path u"
  shows "\<not> HasPrefix u ''register''" "\<not> HasPrefix u ''recover''" "\<not> HasPrefix u ''forgot''"
    "\<not> HasPrefix u ''logout''" "\<not> HasPrefix u ''logoff''" "\<not> HasPrefix u ''assets''"
    "\<not> HasPrefix u ''whoami''" "\<not> HasPrefix u ''settings''" "\<not> HasPrefix u ''portal''"
    "\<not> HasPrefix u ''saml''" "\<not> HasPrefix u ''x509''" "\<not> HasPrefix u ''oauth2''"
  using assms unfolding login_path_def by (auto dest: HasPrefix_both simp: HasPrefix_empty)

lemma route_login:
  "login_path u \<Longrightarrow> route m e r reqID u s = login_flow m e r reqID s"
  using login_not_other [of u]
  by (simp add: route_def login_path_def)

lemma login_not_delegated: "login_path u \<Longrightarrow> \<not> delegated_prefix u"
  using login_not_other [of u] by (simp add: delegated_prefix_def)

subsection \<open>The stages before the routing\<close>

lemma ServeHTTP_expired:
  "token_expired m r \<Longrightarrow>
   ServeHTTP m e hdrs r = (Dispatch ServeSessionLoginRedirect, initial_state m e hdrs r)"
  by (auto simp: ServeHTTP_def token_expired_def validate_token_def split: prod.splits)

lemma validate_token_not_expired:
  "\<not> token_expired m r \<Longrightarrow>
   validate_token m e r (GetRequestID e r) (initial_state m e hdrs r)
     = (None, token_state m e hdrs r)"
  by (auto simp: token_expired_def token_state_def validate_token_def
           split: prod.splits option.splits)

lemma token_accepted_not_expired: "token_accepted m r \<Longrightarrow> \<not> token_expired m r"
  by (auto simp: token_accepted_def token_expired_def split: prod.splits)

lemma token_state_traces:
  "calls (token_state m e hdrs r) = []"
  "cache_adds (token_state m e hdrs r) = []"
  "resp_writer (token_state m e hdrs r) = \<lparr>headers = hdrs, written = None\<rparr>"
  by (auto simp: token_state_def validate_token_def initial_state_def
           split: prod.splits option.splits)

lemma initial_opts_keys:
  "initial_opts m e r reqID ''authenticated'' = Some (VBool False)"
  "initial_opts m e r reqID ''auth_backend_found'' = Some (VBool False)"
  "initial_opts m e r reqID ''flow'' = None"
  "initial_opts m e r reqID ''status_code'' = None"
  "initial_opts m e r reqID ''request_id'' = Some (VStr reqID)"
  by (simp_all add: initial_opts_def Let_def)

lemma token_state_opts:
  "opts (token_state m e hdrs r) ''authenticated'' = Some (VBool (token_accepted m r))"
  "opts (token_state m e hdrs r) ''auth_backend_found'' = Some (VBool False)"
  "opts (token_state m e hdrs r) ''flow'' = None"
  "opts (token_state m e hdrs r) ''status_code'' = None"
  by (auto simp: token_state_def validate_token_def initial_state_def initial_opts_keys
                 token_accepted_def
           split: prod.splits option.splits)

lemma query_params_keeps:
  "opts (snd (query_params m r u s)) = opts s"
  "calls (snd (query_params m r u s)) = calls s"
  "cache_adds (snd (query_params m r u s)) = cache_adds s"
  "logs (snd (query_params m r u s)) = logs s"
  by (auto simp: query_params_def Let_def split: option.splits prod.splits)

lemma query_params_returns:
  "fst (query_params m r u s)
     = (if redirect_query r \<and> \<not> delegated_prefix u then Some ReturnNil else None)"
  by (auto simp: query_params_def redirect_query_def Let_def split: option.splits prod.splits)

lemma routing_state_traces:
  "calls (routing_state m e hdrs r) = []"
  "cache_adds (routing_state m e hdrs r) = []"
  by (simp_all add: routing_state_def query_params_keeps token_state_traces)

lemma routing_state_opts:
  "opts (routing_state m e hdrs r) ''authenticated'' = Some (VBool (token_accepted m r))"
  "opts (routing_state m e hdrs r) ''auth_backend_found'' = Some (VBool False)"
  "opts (routing_state m e hdrs r) ''flow'' = None"
  "opts (routing_state m e hdrs r) ''status_code'' = None"
  by (simp_all add: routing_state_def query_params_keeps token_state_opts)

lemma ServeHTTP_not_expired:
  assumes "\<not> token_expired m r"
  shows "ServeHTTP m e hdrs r =
     (if redirect_query r \<and> \<not> delegated_prefix (url_path m r)
      then (ReturnNil, routing_state m e hdrs r)
      else route m e r (GetRequestID e r) (url_path m r) (routing_state m e hdrs r))"
proof -
  obtain out s' where q: "query_params m r (url_path m r) (token_state m e hdrs r) = (out, s')"
    by (cases "query_params m r (url_path m r) (token_state m e hdrs r)")
  have s': "s' = routing_state m e hdrs r"
    using q by (simp add: routing_state_def)
  have out: "out = (if redirect_query r \<and> \<not> delegated_prefix (url_path m r)
                    then Some ReturnNil else None)"
    using q query_params_returns [of m r "url_path m r" "token_state m e hdrs r"] by simp
  show ?thesis
    using q s' out
    by (simp add: ServeHTTP_def Let_def validate_token_not_expired [OF assms])
qed

lemma login_flow_authenticated:
  "opts s ''authenticated'' = Some (VBool True) \<Longrightarrow>
   login_flow m e r reqID s =
     (Dispatch ServeLogin,
      s\<lparr>opts := (opts s)(''flow'' \<mapsto> VStr ''login'',
                          ''login_options'' \<mapsto> VRef ''loginOptions'',
                          ''authorized'' \<mapsto> VBool True)\<rparr>)"
  by (simp add: login_flow_def Let_def)

lemma route_static:
  assumes "\<not> delegated_prefix u" "opts s ''authenticated'' = Some (VBool True)"
  shows "calls (snd (route m e r reqID u s)) = calls s"
    and "opts (snd (route m e r reqID u s)) ''authenticated'' = Some (VBool True)"
  using assms
  by (simp_all add: route_def set_flow_def delegated_prefix_def login_flow_authenticated)

text \<open>The definitions a run on a given request unfolds.\<close>

lemmas run_defs =
  ServeHTTP_def initial_state_def initial_opts_def GetRequestID_def validate_token_def
  query_params_def route_def delegated_flow_def delegated_auth_def auth_failed_def
  login_flow_def login_attempt_def url_path_def TrimPrefix_def HasPrefix_def
  delegated_prefix_def set_flow_def stamp_claims_def new_entry_def record_call_def
  credentials_realm_def Header_Set_def WriteHeader_def redirectToToken_def
  Let_def

lemmas ex_defs =
  ex_externals_def ex_portal_def ex_backend_def ex_claims_def ex_request_def
  no_token_def valid_token_def expired_token_def
  corp_portal_def accepts_def refuses_def login_post_def corp_credentials_def
  google_portal_def google_request_def call_of_def


subsection \<open>The login flow\<close>

lemma login_attempt_error:
  assumes "snd (Authenticate b (attempt_opts s creds)) = Some msg"
  shows "login_attempt m e r reqID creds b s =
     (case code_of (fst (Authenticate b (attempt_opts s creds))) of
        Some n \<Rightarrow>
          Inr (s\<lparr>opts := (attempt_opts s creds)
                            (''message'' \<mapsto> VStr ''Authentication failed'',
                             ''status_code'' \<mapsto> VInt n),
                   calls := calls s @ [record_call b (Authenticate b (attempt_opts s creds))],
                   logs := logs s @
                     [(Warn, ''Authentication failed'',
                       [ZString ''request_id'' reqID, ZString ''error'' msg])]\<rparr>)
      | None \<Rightarrow>
          Inl (TypeAssertion,
               s\<lparr>opts := (attempt_opts s creds)
                            (''message'' \<mapsto> VStr ''Authentication failed''),
                   calls := calls s @ [record_call b (Authenticate b (attempt_opts s creds))]\<rparr>))"
  using assms
  by (simp add: login_attempt_def attempt_opts_def code_of_def Let_def
           split: option.splits val.splits)

lemma login_attempt_success:
  assumes "snd (Authenticate b (attempt_opts s creds)) = None"
  shows "login_attempt m e r reqID creds b s =
     (case claims_of (fst (Authenticate b (attempt_opts s creds))) of
        Some c0 \<Rightarrow>
          Inr (s\<lparr>opts := (attempt_opts s creds)
                     (''user_claims'' \<mapsto> VClaims (Some (stamp_claims m e r reqID c0)),
                      ''authenticated'' \<mapsto> VBool True,
                      ''status_code'' \<mapsto> VInt 200),
                   calls := calls s @ [record_call b (Authenticate b (attempt_opts s creds))],
                   cache_adds := cache_adds s @
                     [(ID (stamp_claims m e r reqID c0),
                       new_entry b (stamp_claims m e r reqID c0))],
                   logs := logs s @
                     [(Debug, ''Authentication succeeded'',
                       [ZString ''request_id'' reqID,
                        ZAny ''user'' (VClaims (Some (stamp_claims m e r reqID c0)))])]\<rparr>)
      | None \<Rightarrow>
          Inl (if fst (Authenticate b (attempt_opts s creds)) ''claims'' = Some (VClaims None)
               then NilDereference else TypeAssertion,
               s\<lparr>opts := attempt_opts s creds,
                   calls := calls s @ [record_call b (Authenticate b (attempt_opts s creds))]\<rparr>))"
  using assms
  by (simp add: login_attempt_def attempt_opts_def claims_of_def Let_def
           split: option.splits val.splits)

lemma record_call_sel:
  "who (record_call b ra) = backend_id b"
  "result (record_call b ra) = fst ra"
  "error (record_call b ra) = snd ra"
  by (simp_all add: record_call_def backend_id_def)

lemma entry_of_call_record:
  "entry_of_call m e r (record_call b ra) =
     (case snd ra of
        Some msg \<Rightarrow> []
      | None \<Rightarrow>
          (case claims_of (fst ra) of
             None \<Rightarrow> []
           | Some c0 \<Rightarrow>
               [(ID (stamp_claims m e r (GetRequestID e r) c0),
                 new_entry b (stamp_claims m e r (GetRequestID e r) c0))]))"
  by (simp add: entry_of_call_def record_call_def new_entry_def split: option.splits)

lemma login_attempt_Inr:
  assumes "login_attempt m e r (GetRequestID e r) creds b s = Inr s'"
  shows "\<exists>c. calls s' = calls s @ [c] \<and> who c = backend_id b \<and> call_ok c
           \<and> cache_adds s' = cache_adds s @ entry_of_call m e r c
           \<and> opts s' ''auth_backend_found'' = Some (VBool True)
           \<and> opts s' ''authenticated''
               = (if error c = None then Some (VBool True) else opts s ''authenticated'')
           \<and> (error c = None \<longrightarrow> opts s' ''status_code'' = Some (VInt 200))
           \<and> (\<forall>n. error c \<noteq> None \<and> code_of (result c) = Some n
                  \<longrightarrow> opts s' ''status_code'' = Some (VInt n))"
proof (cases "snd (Authenticate b (attempt_opts s creds))")
  case None
  from assms login_attempt_success [OF None, of m e r "GetRequestID e r"]
  obtain c0 where c0: "claims_of (fst (Authenticate b (attempt_opts s creds))) = Some c0"
    by (cases "claims_of (fst (Authenticate b (attempt_opts s creds)))") auto
  show ?thesis
    using assms login_attempt_success [OF None, of m e r "GetRequestID e r"] c0 None
    by (intro exI [of _ "record_call b (Authenticate b (attempt_opts s creds))"])
       (auto simp: record_call_sel entry_of_call_record call_ok_def attempt_opts_def)
next
  case (Some msg)
  from assms login_attempt_error [OF Some, of m e r "GetRequestID e r"]
  obtain n where n: "code_of (fst (Authenticate b (attempt_opts s creds))) = Some n"
    by (cases "code_of (fst (Authenticate b (attempt_opts s creds)))") auto
  show ?thesis
    using assms login_attempt_error [OF Some, of m e r "GetRequestID e r"] n Some
    by (intro exI [of _ "record_call b (Authenticate b (attempt_opts s creds))"])
       (auto simp: record_call_sel entry_of_call_record call_ok_def attempt_opts_def)
qed

lemma login_attempt_Inl:
  assumes "login_attempt m e r (GetRequestID e r) creds b s = Inl (f, s')"
  shows "\<exists>c. calls s' = calls s @ [c] \<and> who c = backend_id b \<and> \<not> call_ok c
           \<and> cache_adds s' = cache_adds s \<and> entry_of_call m e r c = []
           \<and> (error c \<noteq> None \<longrightarrow> f = TypeAssertion)
           \<and> opts s' ''authenticated'' = opts s ''authenticated''"
proof (cases "snd (Authenticate b (attempt_opts s creds))")
  case None
  from assms login_attempt_success [OF None, of m e r "GetRequestID e r"]
  have c0: "claims_of (fst (Authenticate b (attempt_opts s creds))) = None"
    by (cases "claims_of (fst (Authenticate b (attempt_opts s creds)))") auto
  show ?thesis
    using assms login_attempt_success [OF None, of m e r "GetRequestID e r"] c0 None
    by (intro exI [of _ "record_call b (Authenticate b (attempt_opts s creds))"])
       (auto simp: record_call_sel entry_of_call_record call_ok_def attempt_opts_def)
next
  case (Some msg)
  from assms login_attempt_error [OF Some, of m e r "GetRequestID e r"]
  have n: "code_of (fst (Authenticate b (attempt_opts s creds))) = None"
    by (cases "code_of (fst (Authenticate b (attempt_opts s creds)))") auto
  show ?thesis
    using assms login_attempt_error [OF Some, of m e r "GetRequestID e r"] n Some
    by (intro exI [of _ "record_call b (Authenticate b (attempt_opts s creds))"])
       (auto simp: record_call_sel entry_of_call_record call_ok_def attempt_opts_def)
qed

lemma login_loop_Inr:
  assumes "login_loop m e r (GetRequestID e r) creds bs s = Inr s'"
  shows "\<exists>cs. calls s' = calls s @ cs
     \<and> map who cs = map backend_id (filter (\<lambda>b. GetRealm b = credentials_realm creds) bs)
     \<and> (\<forall>c\<in>set cs. call_ok c)
     \<and> cache_adds s' = cache_adds s @ concat (map (entry_of_call m e r) cs)
     \<and> opts s' ''authenticated''
         = (if \<exists>c\<in>set cs. error c = None then Some (VBool True) else opts s ''authenticated'')
     \<and> opts s' ''auth_backend_found''
         = (if cs = [] then opts s ''auth_backend_found'' else Some (VBool True))
     \<and> (cs \<noteq> [] \<and> error (last cs) = None \<longrightarrow> opts s' ''status_code'' = Some (VInt 200))
     \<and> (\<forall>n. cs \<noteq> [] \<and> error (last cs) \<noteq> None \<and> code_of (result (last cs)) = Some n
            \<longrightarrow> opts s' ''status_code'' = Some (VInt n))
     \<and> (cs = [] \<longrightarrow> opts s' ''status_code'' = opts s ''status_code'')"
  using assms
proof (induction bs arbitrary: s)
  case Nil
  then show ?case by (intro exI [of _ "[]"]) simp
next
  case (Cons b bs)
  show ?case
  proof (cases "GetRealm b = credentials_realm creds")
    case False
    with Cons.prems have "login_loop m e r (GetRequestID e r) creds bs s = Inr s'" by simp
    from Cons.IH [OF this] False show ?thesis by simp
  next
    case True
    with Cons.prems obtain s1 where
      step: "login_attempt m e r (GetRequestID e r) creds b s = Inr s1" and
      rest: "login_loop m e r (GetRequestID e r) creds bs s1 = Inr s'"
      by (auto split: sum.splits)
    from login_attempt_Inr [OF step] obtain c where c:
      "calls s1 = calls s @ [c] \<and> who c = backend_id b \<and> call_ok c
       \<and> cache_adds s1 = cache_adds s @ entry_of_call m e r c
       \<and> opts s1 ''auth_backend_found'' = Some (VBool True)
       \<and> opts s1 ''authenticated''
           = (if error c = None then Some (VBool True) else opts s ''authenticated'')
       \<and> (error c = None \<longrightarrow> opts s1 ''status_code'' = Some (VInt 200))
       \<and> (\<forall>n. error c \<noteq> None \<and> code_of (result c) = Some n
              \<longrightarrow> opts s1 ''status_code'' = Some (VInt n))" ..
    from Cons.IH [OF rest] obtain cs where cs:
      "calls s' = calls s1 @ cs
       \<and> map who cs = map backend_id (filter (\<lambda>b. GetRealm b = credentials_realm creds) bs)
       \<and> (\<forall>c\<in>set cs. call_ok c)
       \<and> cache_adds s' = cache_adds s1 @ concat (map (entry_of_call m e r) cs)
       \<and> opts s' ''authenticated''
           = (if \<exists>c\<in>set cs. error c = None then Some (VBool True)
              else opts s1 ''authenticated'')
       \<and> opts s' ''auth_backend_found''
           = (if cs = [] then opts s1 ''auth_backend_found'' else Some (VBool True))
       \<and> (cs \<noteq> [] \<and> error (last cs) = None \<longrightarrow> opts s' ''status_code'' = Some (VInt 200))
       \<and> (\<forall>n. cs \<noteq> [] \<and> error (last cs) \<noteq> None \<and> code_of (result (last cs)) = Some n
              \<longrightarrow> opts s' ''status_code'' = Some (VInt n))
       \<and> (cs = [] \<longrightarrow> opts s' ''status_code'' = opts s1 ''status_code'')" ..
    show ?thesis
    proof (intro exI [of _ "c # cs"] conjI)
      show "calls s' = calls s @ c # cs" using c cs by simp
      show "map who (c # cs)
              = map backend_id (filter (\<lambda>b. GetRealm b = credentials_realm creds) (b # bs))"
        using True c cs by simp
      show "\<forall>c\<in>set (c # cs). call_ok c" using c cs by simp
      show "cache_adds s' = cache_adds s @ concat (map (entry_of_call m e r) (c # cs))"
        using c cs by simp
      show "opts s' ''authenticated''
              = (if \<exists>c\<in>set (c # cs). error c = None then Some (VBool True)
                 else opts s ''authenticated'')"
        using c cs by auto
      show "opts s' ''auth_backend_found''
              = (if c # cs = [] then opts s ''auth_backend_found'' else Some (VBool True))"
        using c cs by simp
      show "c # cs \<noteq> [] \<and> error (last (c # cs)) = None
              \<longrightarrow> opts s' ''status_code'' = Some (VInt 200)"
        using c cs by (cases "cs = []") auto
      show "\<forall>n. c # cs \<noteq> [] \<and> error (last (c # cs)) \<noteq> None
                 \<and> code_of (result (last (c # cs))) = Some n
              \<longrightarrow> opts s' ''status_code'' = Some (VInt n)"
        using c cs by (cases "cs = []") auto
      show "c # cs = [] \<longrightarrow> opts s' ''status_code'' = opts s ''status_code''" by simp
    qed
  qed
qed

lemma login_loop_Inl:
  assumes "login_loop m e r (GetRequestID e r) creds bs s = Inl (f, s')"
  shows "\<exists>cs c. calls s' = calls s @ cs @ [c]
     \<and> (\<forall>c\<in>set cs. call_ok c) \<and> \<not> call_ok c
     \<and> (error c \<noteq> None \<longrightarrow> f = TypeAssertion)
     \<and> cache_adds s' = cache_adds s @ concat (map (entry_of_call m e r) (cs @ [c]))
     \<and> opts s' ''authenticated''
         = (if \<exists>c\<in>set cs. error c = None then Some (VBool True) else opts s ''authenticated'')
     \<and> (\<exists>rest. map backend_id (filter (\<lambda>b. GetRealm b = credentials_realm creds) bs)
                  = map who (cs @ [c]) @ rest)"
  using assms
proof (induction bs arbitrary: s)
  case Nil
  then show ?case by simp
next
  case (Cons b bs)
  show ?case
  proof (cases "GetRealm b = credentials_realm creds")
    case False
    with Cons.prems have "login_loop m e r (GetRequestID e r) creds bs s = Inl (f, s')" by simp
    from Cons.IH [OF this] False show ?thesis by simp
  next
    case True
    show ?thesis
    proof (cases "login_attempt m e r (GetRequestID e r) creds b s")
      case (Inl p)
      with True Cons.prems have step: "login_attempt m e r (GetRequestID e r) creds b s = Inl (f, s')"
        by simp
      from login_attempt_Inl [OF step] obtain c where
        "calls s' = calls s @ [c] \<and> who c = backend_id b \<and> \<not> call_ok c
           \<and> cache_adds s' = cache_adds s \<and> entry_of_call m e r c = []
           \<and> (error c \<noteq> None \<longrightarrow> f = TypeAssertion)
           \<and> opts s' ''authenticated'' = opts s ''authenticated''" ..
      then show ?thesis
        using True by (intro exI [of _ "[]"] exI [of _ c]) simp
    next
      case (Inr s1)
      with True Cons.prems have
        rest: "login_loop m e r (GetRequestID e r) creds bs s1 = Inl (f, s')" by simp
      from login_attempt_Inr [OF Inr] obtain c0 where c0:
        "calls s1 = calls s @ [c0] \<and> who c0 = backend_id b \<and> call_ok c0
         \<and> cache_adds s1 = cache_adds s @ entry_of_call m e r c0
         \<and> opts s1 ''auth_backend_found'' = Some (VBool True)
         \<and> opts s1 ''authenticated''
             = (if error c0 = None then Some (VBool True) else opts s ''authenticated'')
         \<and> (error c0 = None \<longrightarrow> opts s1 ''status_code'' = Some (VInt 200))
         \<and> (\<forall>n. error c0 \<noteq> None \<and> code_of (result c0) = Some n
                \<longrightarrow> opts s1 ''status_code'' = Some (VInt n))" ..
      from Cons.IH [OF rest] obtain cs c where cs:
        "calls s' = calls s1 @ cs @ [c]
         \<and> (\<forall>c\<in>set cs. call_ok c) \<and> \<not> call_ok c
         \<and> (error c \<noteq> None \<longrightarrow> f = TypeAssertion)
         \<and> cache_adds s' = cache_adds s1 @ concat (map (entry_of_call m e r) (cs @ [c]))
         \<and> opts s' ''authenticated''
             = (if \<exists>c\<in>set cs. error c = None then Some (VBool True)
                else opts s1 ''authenticated'')
         \<and> (\<exists>rest. map backend_id (filter (\<lambda>b. GetRealm b = credentials_realm creds) bs)
                      = map who (cs @ [c]) @ rest)"
        by (elim exE) (rule that)
      show ?thesis
      proof (rule exI [of _ "c0 # cs"], rule exI [of _ c], intro conjI)
        show "calls s' = calls s @ (c0 # cs) @ [c]" using c0 cs by simp
        show "\<forall>c\<in>set (c0 # cs). call_ok c" using c0 cs by simp
        show "\<not> call_ok c" using cs by simp
        show "error c \<noteq> None \<longrightarrow> f = TypeAssertion" using cs by simp
        show "cache_adds s'
                = cache_adds s @ concat (map (entry_of_call m e r) ((c0 # cs) @ [c]))"
          using c0 cs by simp
        show "opts s' ''authenticated''
                = (if \<exists>c\<in>set (c0 # cs). error c = None then Some (VBool True)
                   else opts s ''authenticated'')"
          using c0 cs by auto
        show "\<exists>rest. map backend_id (filter (\<lambda>b. GetRealm b = credentials_realm creds) (b # bs))
                       = map who ((c0 # cs) @ [c]) @ rest"
          using True c0 cs by auto
      qed
    qed
  qed
qed

lemma login_start_facts:
  "calls (login_start m e hdrs r) = []"
  "cache_adds (login_start m e hdrs r) = []"
  "opts (login_start m e hdrs r) ''authenticated'' = Some (VBool (token_accepted m r))"
  "opts (login_start m e hdrs r) ''auth_backend_found'' = Some (VBool False)"
  "opts (login_start m e hdrs r) ''status_code'' = None"
  by (simp_all add: login_start_def routing_state_traces routing_state_opts)

text \<open>
  A request reaches the loop over the backends when its token is neither accepted nor
  reported expired, it is not a GET with a redirect parameter, its path is the login
  path, and credentials were parsed.
\<close>

lemma ServeHTTP_credentials:
  assumes "\<not> token_accepted m r" and "\<not> token_expired m r" and "\<not> redirect_query r"
    and "login_path (url_path m r)" and "ParseCredentials e r = Inr (Some creds)"
  shows "ServeHTTP m e hdrs r =
     login_finish (GetRequestID e r)
       (login_loop m e r (GetRequestID e r) creds (Backends m) (login_start m e hdrs r))"
  using assms
  by (simp add: ServeHTTP_not_expired route_login login_flow_def
                routing_state_opts login_start_def login_finish_def Let_def
           split: sum.splits)

lemma credentials_run_ok:
  assumes na: "\<not> token_accepted m r" and live: "\<not> token_expired m r"
    and nq: "\<not> redirect_query r" and lp: "login_path (url_path m r)"
    and pc: "ParseCredentials e r = Inr (Some creds)"
    and ok: "fst (ServeHTTP m e hdrs r) = Dispatch ServeLogin"
  shows "map who (calls (snd (ServeHTTP m e hdrs r)))
           = map backend_id (filter (\<lambda>b. GetRealm b = credentials_realm creds) (Backends m))"
    and "\<forall>c\<in>set (calls (snd (ServeHTTP m e hdrs r))). call_ok c"
    and "cache_adds (snd (ServeHTTP m e hdrs r))
           = concat (map (entry_of_call m e r) (calls (snd (ServeHTTP m e hdrs r))))"
    and "opts (snd (ServeHTTP m e hdrs r)) ''authenticated''
           = Some (VBool (\<exists>c\<in>set (calls (snd (ServeHTTP m e hdrs r))). error c = None))"
    and "calls (snd (ServeHTTP m e hdrs r)) \<noteq> []
           \<and> error (last (calls (snd (ServeHTTP m e hdrs r)))) = None
         \<longrightarrow> opts (snd (ServeHTTP m e hdrs r)) ''status_code'' = Some (VInt 200)"
    and "\<forall>n. calls (snd (ServeHTTP m e hdrs r)) \<noteq> []
           \<and> error (last (calls (snd (ServeHTTP m e hdrs r)))) \<noteq> None
           \<and> code_of (result (last (calls (snd (ServeHTTP m e hdrs r))))) = Some n
         \<longrightarrow> opts (snd (ServeHTTP m e hdrs r)) ''status_code'' = Some (VInt n)"
    and "calls (snd (ServeHTTP m e hdrs r)) = []
         \<longrightarrow> opts (snd (ServeHTTP m e hdrs r)) ''status_code'' = Some (VInt 500)"
proof -
  let ?s0 = "login_start m e hdrs r"
  let ?res = "login_loop m e r (GetRequestID e r) creds (Backends m) ?s0"
  have run: "ServeHTTP m e hdrs r = login_finish (GetRequestID e r) ?res"
    by (rule ServeHTTP_credentials [OF na live nq lp pc])
  from ok run obtain s2 where s2: "?res = Inr s2"
    by (cases ?res) (auto simp: login_finish_def)
  from login_loop_Inr [OF s2] obtain cs where cs:
    "calls s2 = calls ?s0 @ cs
     \<and> map who cs = map backend_id (filter (\<lambda>b. GetRealm b = credentials_realm creds) (Backends m))
     \<and> (\<forall>c\<in>set cs. call_ok c)
     \<and> cache_adds s2 = cache_adds ?s0 @ concat (map (entry_of_call m e r) cs)
     \<and> opts s2 ''authenticated''
         = (if \<exists>c\<in>set cs. error c = None then Some (VBool True) else opts ?s0 ''authenticated'')
     \<and> opts s2 ''auth_backend_found''
         = (if cs = [] then opts ?s0 ''auth_backend_found'' else Some (VBool True))
     \<and> (cs \<noteq> [] \<and> error (last cs) = None \<longrightarrow> opts s2 ''status_code'' = Some (VInt 200))
     \<and> (\<forall>n. cs \<noteq> [] \<and> error (last cs) \<noteq> None \<and> code_of (result (last cs)) = Some n
            \<longrightarrow> opts s2 ''status_code'' = Some (VInt n))
     \<and> (cs = [] \<longrightarrow> opts s2 ''status_code'' = opts ?s0 ''status_code'')" ..
  have fin: "snd (ServeHTTP m e hdrs r) =
      (if cs = []
       then s2\<lparr>opts := (opts s2)(''status_code'' \<mapsto> VInt 500),
               logs := logs s2 @
                 [(Warn, ''Authentication failed'',
                   [ZString ''request_id'' (GetRequestID e r),
                    ZString ''error'' ''no matching auth backend found''])]\<rparr>
       else s2)"
    using run s2 cs by (simp add: login_finish_def login_start_facts)
  have calls: "calls (snd (ServeHTTP m e hdrs r)) = cs"
    using fin cs by (simp add: login_start_facts)
  show "map who (calls (snd (ServeHTTP m e hdrs r)))
           = map backend_id (filter (\<lambda>b. GetRealm b = credentials_realm creds) (Backends m))"
    using calls cs by simp
  show "\<forall>c\<in>set (calls (snd (ServeHTTP m e hdrs r))). call_ok c"
    using calls cs by simp
  show "cache_adds (snd (ServeHTTP m e hdrs r))
           = concat (map (entry_of_call m e r) (calls (snd (ServeHTTP m e hdrs r))))"
    unfolding calls using fin cs by (simp add: login_start_facts)
  show "opts (snd (ServeHTTP m e hdrs r)) ''authenticated''
           = Some (VBool (\<exists>c\<in>set (calls (snd (ServeHTTP m e hdrs r))). error c = None))"
    unfolding calls using fin cs na by (auto simp: login_start_facts)
  show "calls (snd (ServeHTTP m e hdrs r)) \<noteq> []
           \<and> error (last (calls (snd (ServeHTTP m e hdrs r)))) = None
         \<longrightarrow> opts (snd (ServeHTTP m e hdrs r)) ''status_code'' = Some (VInt 200)"
    unfolding calls using fin cs by simp
  show "\<forall>n. calls (snd (ServeHTTP m e hdrs r)) \<noteq> []
           \<and> error (last (calls (snd (ServeHTTP m e hdrs r)))) \<noteq> None
           \<and> code_of (result (last (calls (snd (ServeHTTP m e hdrs r))))) = Some n
         \<longrightarrow> opts (snd (ServeHTTP m e hdrs r)) ''status_code'' = Some (VInt n)"
    unfolding calls using fin cs by simp
  show "calls (snd (ServeHTTP m e hdrs r)) = []
         \<longrightarrow> opts (snd (ServeHTTP m e hdrs r)) ''status_code'' = Some (VInt 500)"
    unfolding calls using fin by simp
qed

lemma credentials_run_panic:
  assumes na: "\<not> token_accepted m r" and live: "\<not> token_expired m r"
    and nq: "\<not> redirect_query r" and lp: "login_path (url_path m r)"
    and pc: "ParseCredentials e r = Inr (Some creds)"
    and bad: "fst (ServeHTTP m e hdrs r) \<noteq> Dispatch ServeLogin"
  shows "\<exists>f cs c. fst (ServeHTTP m e hdrs r) = Panic f
     \<and> calls (snd (ServeHTTP m e hdrs r)) = cs @ [c]
     \<and> (\<forall>c\<in>set cs. call_ok c) \<and> \<not> call_ok c
     \<and> (error c \<noteq> None \<longrightarrow> f = TypeAssertion)
     \<and> cache_adds (snd (ServeHTTP m e hdrs r))
         = concat (map (entry_of_call m e r) (calls (snd (ServeHTTP m e hdrs r))))
     \<and> opts (snd (ServeHTTP m e hdrs r)) ''authenticated''
         = Some (VBool (\<exists>c\<in>set cs. error c = None))
     \<and> (\<exists>rest. map backend_id
                    (filter (\<lambda>b. GetRealm b = credentials_realm creds) (Backends m))
                  = map who (cs @ [c]) @ rest)"
proof -
  let ?s0 = "login_start m e hdrs r"
  let ?res = "login_loop m e r (GetRequestID e r) creds (Backends m) ?s0"
  have run: "ServeHTTP m e hdrs r = login_finish (GetRequestID e r) ?res"
    by (rule ServeHTTP_credentials [OF na live nq lp pc])
  show ?thesis
  proof (cases ?res)
    case (Inl p)
    obtain f s2 where p: "p = (f, s2)" by (cases p)
    from login_loop_Inl [OF Inl [unfolded p]] obtain cs c where cs:
      "calls s2 = calls ?s0 @ cs @ [c]
       \<and> (\<forall>c\<in>set cs. call_ok c) \<and> \<not> call_ok c
       \<and> (error c \<noteq> None \<longrightarrow> f = TypeAssertion)
       \<and> cache_adds s2 = cache_adds ?s0 @ concat (map (entry_of_call m e r) (cs @ [c]))
       \<and> opts s2 ''authenticated''
           = (if \<exists>c\<in>set cs. error c = None then Some (VBool True)
              else opts ?s0 ''authenticated'')
       \<and> (\<exists>rest. map backend_id
                      (filter (\<lambda>b. GetRealm b = credentials_realm creds) (Backends m))
                    = map who (cs @ [c]) @ rest)"
      by (elim exE) (rule that)
    have fin: "ServeHTTP m e hdrs r = (Panic f, s2)"
      using run Inl p by (simp add: login_finish_def)
    show ?thesis
    proof (rule exI [of _ f], rule exI [of _ cs], rule exI [of _ c], intro conjI)
      show "fst (ServeHTTP m e hdrs r) = Panic f" using fin by simp
      show "calls (snd (ServeHTTP m e hdrs r)) = cs @ [c]"
        using fin cs by (simp add: login_start_facts)
      show "\<forall>c\<in>set cs. call_ok c" using cs by simp
      show "\<not> call_ok c" using cs by simp
      show "error c \<noteq> None \<longrightarrow> f = TypeAssertion" using cs by simp
      show "cache_adds (snd (ServeHTTP m e hdrs r))
         = concat (map (entry_of_call m e r) (calls (snd (ServeHTTP m e hdrs r))))"
        using fin cs by (simp add: login_start_facts)
      show "opts (snd (ServeHTTP m e hdrs r)) ''authenticated''
         = Some (VBool (\<exists>c\<in>set cs. error c = None))"
        using fin cs na by (auto simp: login_start_facts)
      show "\<exists>rest. map backend_id
                    (filter (\<lambda>b. GetRealm b = credentials_realm creds) (Backends m))
                  = map who (cs @ [c]) @ rest"
        using cs by simp
    qed
  next
    case (Inr s2)
    from login_loop_Inr [OF Inr] have
      "opts s2 ''auth_backend_found'' = Some (VBool False)
       \<or> opts s2 ''auth_backend_found'' = Some (VBool True)"
      by (auto simp: login_start_facts split: if_splits)
    with run Inr bad show ?thesis
      by (auto simp: login_finish_def)
  qed
qed


subsection \<open>The delegated-backend flow\<close>

lemma auth_failed_code:
  "code_of resp = Some n \<Longrightarrow>
   auth_failed reqID meth realm resp (Some msg) s =
     (Dispatch ServeGeneric,
      s\<lparr>opts := (opts s)(''flow'' \<mapsto> VStr ''auth_failed'',
                          ''authenticated'' \<mapsto> VBool False,
                          ''message'' \<mapsto> VStr ''Authentication failed'',
                          ''status_code'' \<mapsto> VInt n),
         logs := logs s @
           [(Warn, ''Authentication failed'',
             [ZString ''request_id'' reqID, ZString ''auth_method'' meth,
              ZString ''auth_realm'' realm, ZString ''error'' msg])]\<rparr>)"
  by (simp add: auth_failed_def code_of_def Let_def split: option.splits val.splits)

lemma auth_failed_no_code:
  "code_of resp = None \<Longrightarrow>
   auth_failed reqID meth realm resp err s =
     (Panic TypeAssertion,
      s\<lparr>opts := (opts s)(''flow'' \<mapsto> VStr ''auth_failed'',
                          ''authenticated'' \<mapsto> VBool False,
                          ''message'' \<mapsto> VStr ''Authentication failed'')\<rparr>)"
  by (simp add: auth_failed_def code_of_def Let_def split: option.splits val.splits)

lemma auth_failed_nil_error:
  "\<exists>f. fst (auth_failed reqID meth realm resp None s) = Panic f"
  "logs (snd (auth_failed reqID meth realm resp None s)) = logs s"
  "calls (snd (auth_failed reqID meth realm resp None s)) = calls s"
  "cache_adds (snd (auth_failed reqID meth realm resp None s)) = cache_adds s"
  by (simp_all add: auth_failed_def Let_def split: option.splits val.splits)

lemma auth_failed_nil_not_dispatch:
  "fst (auth_failed reqID meth realm resp None s) \<noteq> Dispatch h"
  using auth_failed_nil_error(1) [of reqID meth realm resp s] by auto

lemma delegated_auth_error:
  assumes "snd (Authenticate b (delegated_opts m e r meth realm s)) = Some msg"
  shows "delegated_auth m e r reqID meth realm b s =
     auth_failed reqID meth realm (fst (Authenticate b (delegated_opts m e r meth realm s)))
       (Some msg)
       (s\<lparr>opts := delegated_opts m e r meth realm s,
           calls := calls s @ [record_call b (Authenticate b (delegated_opts m e r meth realm s))]\<rparr>)"
  using assms by (simp add: delegated_auth_def delegated_opts_def Let_def)

lemma delegated_auth_no_claims:
  assumes "snd (Authenticate b (delegated_opts m e r meth realm s)) = None"
    and "fst (Authenticate b (delegated_opts m e r meth realm s)) ''redirect_url'' = None"
    and "fst (Authenticate b (delegated_opts m e r meth realm s)) ''claims'' = None"
  shows "delegated_auth m e r reqID meth realm b s =
     auth_failed reqID meth realm (fst (Authenticate b (delegated_opts m e r meth realm s)))
       None
       (s\<lparr>opts := delegated_opts m e r meth realm s,
           calls := calls s @ [record_call b (Authenticate b (delegated_opts m e r meth realm s))]\<rparr>)"
  using assms by (simp add: delegated_auth_def delegated_opts_def Let_def)

lemma delegated_auth_claims:
  assumes "snd (Authenticate b (delegated_opts m e r meth realm s)) = None"
    and "fst (Authenticate b (delegated_opts m e r meth realm s)) ''redirect_url'' = None"
    and "claims_of (fst (Authenticate b (delegated_opts m e r meth realm s))) = Some c0"
  shows "delegated_auth m e r reqID meth realm b s =
     (Dispatch ServeLogin,
      s\<lparr>opts := (delegated_opts m e r meth realm s)
                   (''authenticated'' \<mapsto> VBool True,
                    ''user_claims'' \<mapsto> VClaims (Some (stamp_claims m e r reqID c0)),
                    ''status_code'' \<mapsto> VInt 200),
         calls := calls s @ [record_call b (Authenticate b (delegated_opts m e r meth realm s))],
         cache_adds := cache_adds s @
           [(ID (stamp_claims m e r reqID c0), new_entry b (stamp_claims m e r reqID c0))],
         logs := logs s @
           [(Debug, ''Authentication succeeded'',
             [ZString ''request_id'' reqID, ZString ''auth_method'' meth,
              ZString ''auth_realm'' realm,
              ZAny ''user'' (VClaims (Some (stamp_claims m e r reqID c0)))])]\<rparr>)"
  using assms
  by (simp add: delegated_auth_def delegated_opts_def claims_of_def Let_def
           split: option.splits val.splits)

lemma delegated_auth_redirect:
  assumes "snd (Authenticate b (delegated_opts m e r meth realm s)) = None"
    and "fst (Authenticate b (delegated_opts m e r meth realm s)) ''redirect_url'' = Some v"
  shows "fst (delegated_auth m e r reqID meth realm b s) \<noteq> Dispatch ServeLogin"
    and "fst (delegated_auth m e r reqID meth realm b s) \<noteq> Dispatch ServeGeneric"
    and "calls (snd (delegated_auth m e r reqID meth realm b s))
           = calls s @ [record_call b (Authenticate b (delegated_opts m e r meth realm s))]"
    and "cache_adds (snd (delegated_auth m e r reqID meth realm b s)) = cache_adds s"
  using assms
  by (simp_all add: delegated_auth_def delegated_opts_def Let_def split: val.splits)

lemma delegated_auth_bad_claims:
  assumes "snd (Authenticate b (delegated_opts m e r meth realm s)) = None"
    and "fst (Authenticate b (delegated_opts m e r meth realm s)) ''redirect_url'' = None"
    and "fst (Authenticate b (delegated_opts m e r meth realm s)) ''claims'' = Some v"
    and "claims_of (fst (Authenticate b (delegated_opts m e r meth realm s))) = None"
  shows "\<exists>f. delegated_auth m e r reqID meth realm b s =
     (Panic f,
      s\<lparr>opts := delegated_opts m e r meth realm s,
         calls := calls s @ [record_call b (Authenticate b (delegated_opts m e r meth realm s))]\<rparr>)"
  using assms
  by (cases v)
     (simp_all add: delegated_auth_def delegated_opts_def claims_of_def Let_def
               split: option.splits)

lemma delegated_auth_summary:
  "\<exists>c. calls (snd (delegated_auth m e r (GetRequestID e r) meth realm b s)) = calls s @ [c]
     \<and> who c = backend_id b
     \<and> (cache_adds (snd (delegated_auth m e r (GetRequestID e r) meth realm b s)) = cache_adds s
        \<or> cache_adds (snd (delegated_auth m e r (GetRequestID e r) meth realm b s))
            = cache_adds s @ entry_of_call m e r c)
     \<and> (fst (delegated_auth m e r (GetRequestID e r) meth realm b s) = Dispatch ServeLogin
          \<longrightarrow> error c = None \<and> call_ok c
             \<and> cache_adds (snd (delegated_auth m e r (GetRequestID e r) meth realm b s))
                 = cache_adds s @ entry_of_call m e r c)
     \<and> (error c \<noteq> None \<and> code_of (result c) = None
          \<longrightarrow> fst (delegated_auth m e r (GetRequestID e r) meth realm b s) = Panic TypeAssertion)
     \<and> (\<forall>n. error c \<noteq> None \<and> code_of (result c) = Some n
          \<longrightarrow> fst (delegated_auth m e r (GetRequestID e r) meth realm b s)
                = Dispatch ServeGeneric
             \<and> opts (snd (delegated_auth m e r (GetRequestID e r) meth realm b s)) ''status_code''
                = Some (VInt n))
     \<and> (result c ''redirect_url'' = None
          \<longrightarrow> cache_adds (snd (delegated_auth m e r (GetRequestID e r) meth realm b s))
                = cache_adds s @ entry_of_call m e r c)"
  (is "\<exists>c. ?P c")
proof -
  let ?ra = "Authenticate b (delegated_opts m e r meth realm s)"
  let ?c = "record_call b ?ra"
  have main: "?P ?c"
  proof (cases "snd ?ra")
    case (Some msg)
    show ?thesis
    proof (cases "code_of (fst ?ra)")
      case None
      with Some show ?thesis
        by (simp add: delegated_auth_error auth_failed_no_code record_call_sel
                      entry_of_call_record)
    next
      case (Some n)
      with \<open>snd ?ra = Some msg\<close> show ?thesis
        by (simp add: delegated_auth_error auth_failed_code record_call_sel
                      entry_of_call_record)
    qed
  next
    case None
    show ?thesis
    proof (cases "fst ?ra ''redirect_url''")
      case (Some v)
      with None delegated_auth_redirect [OF None Some, of "GetRequestID e r"] show ?thesis
        by (simp add: record_call_sel)
    next
      case no_redirect: None
      show ?thesis
      proof (cases "fst ?ra ''claims''")
        case no_claims: None
        have run: "delegated_auth m e r (GetRequestID e r) meth realm b s =
            auth_failed (GetRequestID e r) meth realm (fst ?ra) None
              (s\<lparr>opts := delegated_opts m e r meth realm s, calls := calls s @ [?c]\<rparr>)"
          by (rule delegated_auth_no_claims [OF None no_redirect no_claims])
        have "fst (delegated_auth m e r (GetRequestID e r) meth realm b s) \<noteq> Dispatch ServeLogin"
          unfolding run by (rule auth_failed_nil_not_dispatch)
        moreover have "calls (snd (delegated_auth m e r (GetRequestID e r) meth realm b s))
            = calls s @ [?c]"
          unfolding run by (simp add: auth_failed_nil_error)
        moreover have "cache_adds (snd (delegated_auth m e r (GetRequestID e r) meth realm b s))
            = cache_adds s"
          unfolding run by (simp add: auth_failed_nil_error)
        moreover have "claims_of (fst ?ra) = None"
          using no_claims by (simp add: claims_of_def)
        ultimately show ?thesis
          using None by (simp add: record_call_sel entry_of_call_record)
      next
        case (Some v)
        show ?thesis
        proof (cases "claims_of (fst ?ra)")
          case bad: None
          from delegated_auth_bad_claims [OF None no_redirect Some bad, of "GetRequestID e r"]
          obtain f where "delegated_auth m e r (GetRequestID e r) meth realm b s =
             (Panic f,
              s\<lparr>opts := delegated_opts m e r meth realm s, calls := calls s @ [?c]\<rparr>)" ..
          with None bad show ?thesis
            by (simp add: record_call_sel entry_of_call_record)
        next
          case (Some c0)
          with None no_redirect show ?thesis
            by (simp add: delegated_auth_claims record_call_sel entry_of_call_record call_ok_def)
        qed
      qed
    qed
  qed
  show ?thesis
    by (rule exI [of _ ?c]) (rule main)
qed

lemma delegated_loop_cases:
  "delegated_loop m e r reqID meth realm bs s = delegated_loop m e r reqID meth realm [] s
   \<or> (\<exists>b\<in>set bs. GetRealm b = realm \<and> GetMethod b = meth
         \<and> delegated_loop m e r reqID meth realm bs s
             = delegated_auth m e r reqID meth realm b s)"
proof (induction bs)
  case Nil
  show ?case by simp
next
  case (Cons b bs)
  show ?case
  proof (cases "GetRealm b = realm \<and> GetMethod b = meth")
    case True
    then have "delegated_loop m e r reqID meth realm (b # bs) s
                 = delegated_auth m e r reqID meth realm b s"
      by simp
    with True show ?thesis by simp
  next
    case False
    then have skip: "delegated_loop m e r reqID meth realm (b # bs) s
                 = delegated_loop m e r reqID meth realm bs s"
      by auto
    from Cons.IH show ?thesis
      unfolding skip by (elim disjE) (simp, fastforce)
  qed
qed

lemma delegated_loop_Nil:
  "fst (delegated_loop m e r reqID meth realm [] s) = Dispatch ServeGeneric"
  "calls (snd (delegated_loop m e r reqID meth realm [] s)) = calls s"
  "cache_adds (snd (delegated_loop m e r reqID meth realm [] s)) = cache_adds s"
  by simp_all

lemma delegated_flow_cases:
  "(fst (delegated_flow m e r reqID u s) = Dispatch ServeGeneric
    \<and> calls (snd (delegated_flow m e r reqID u s)) = calls s
    \<and> cache_adds (snd (delegated_flow m e r reqID u s)) = cache_adds s)
   \<or> (\<exists>b\<in>set (Backends m). \<exists>meth realm s1.
         calls s1 = calls s \<and> cache_adds s1 = cache_adds s
         \<and> delegated_flow m e r reqID u s = delegated_auth m e r reqID meth realm b s1)"
proof (cases "length (strings_Split u CHR ''/'') < 2")
  case True
  then show ?thesis by (simp add: delegated_flow_def)
next
  case False
  let ?meth = "strings_Split u CHR ''/'' ! 0"
  let ?realm = "strings_Split u CHR ''/'' ! 1"
  let ?s1 = "s\<lparr>opts := (opts s)(''flow'' \<mapsto> VStr ?meth)\<rparr>"
  have run: "delegated_flow m e r reqID u s
      = delegated_loop m e r reqID ?meth ?realm (Backends m) ?s1"
    using False by (simp add: delegated_flow_def Let_def)
  from delegated_loop_cases [of m e r reqID ?meth ?realm "Backends m" ?s1]
  show ?thesis
  proof
    assume "delegated_loop m e r reqID ?meth ?realm (Backends m) ?s1
              = delegated_loop m e r reqID ?meth ?realm [] ?s1"
    with run have "delegated_flow m e r reqID u s
              = delegated_loop m e r reqID ?meth ?realm [] ?s1" by simp
    then show ?thesis by (simp only: delegated_loop_Nil) simp
  next
    assume "\<exists>b\<in>set (Backends m). GetRealm b = ?realm \<and> GetMethod b = ?meth
         \<and> delegated_loop m e r reqID ?meth ?realm (Backends m) ?s1
             = delegated_auth m e r reqID ?meth ?realm b ?s1"
    then obtain b where b: "b \<in> set (Backends m)"
      "delegated_loop m e r reqID ?meth ?realm (Backends m) ?s1
         = delegated_auth m e r reqID ?meth ?realm b ?s1"
      by blast
    have "\<exists>b\<in>set (Backends m). \<exists>meth realm s1.
         calls s1 = calls s \<and> cache_adds s1 = cache_adds s
         \<and> delegated_flow m e r reqID u s = delegated_auth m e r reqID meth realm b s1"
      using b run
      by (intro bexI [of _ b] exI [of _ ?meth] exI [of _ ?realm] exI [of _ ?s1]) simp_all
    then show ?thesis by (rule disjI2)
  qed
qed

lemma ServeHTTP_delegated:
  "\<not> token_expired m r \<Longrightarrow> delegated_prefix (url_path m r) \<Longrightarrow>
   ServeHTTP m e hdrs r =
     delegated_flow m e r (GetRequestID e r) (url_path m r) (routing_state m e hdrs r)"
  by (simp add: ServeHTTP_not_expired route_delegated)

lemma delegated_run:
  assumes "\<not> token_expired m r" and "delegated_prefix (url_path m r)"
  shows "(fst (ServeHTTP m e hdrs r) = Dispatch ServeGeneric
          \<and> calls (snd (ServeHTTP m e hdrs r)) = []
          \<and> cache_adds (snd (ServeHTTP m e hdrs r)) = [])
   \<or> (\<exists>c. calls (snd (ServeHTTP m e hdrs r)) = [c]
         \<and> (\<exists>b\<in>set (Backends m). who c = backend_id b)
         \<and> (cache_adds (snd (ServeHTTP m e hdrs r)) = []
            \<or> cache_adds (snd (ServeHTTP m e hdrs r)) = entry_of_call m e r c)
         \<and> (fst (ServeHTTP m e hdrs r) = Dispatch ServeLogin
              \<longrightarrow> error c = None \<and> call_ok c
                 \<and> cache_adds (snd (ServeHTTP m e hdrs r)) = entry_of_call m e r c)
         \<and> (error c \<noteq> None \<and> code_of (result c) = None
              \<longrightarrow> fst (ServeHTTP m e hdrs r) = Panic TypeAssertion)
         \<and> (\<forall>n. error c \<noteq> None \<and> code_of (result c) = Some n
              \<longrightarrow> fst (ServeHTTP m e hdrs r) = Dispatch ServeGeneric
                 \<and> opts (snd (ServeHTTP m e hdrs r)) ''status_code'' = Some (VInt n))
         \<and> (result c ''redirect_url'' = None
              \<longrightarrow> cache_adds (snd (ServeHTTP m e hdrs r)) = entry_of_call m e r c))"
proof -
  let ?reqID = "GetRequestID e r"
  let ?s = "routing_state m e hdrs r"
  have run: "ServeHTTP m e hdrs r = delegated_flow m e r ?reqID (url_path m r) ?s"
    by (rule ServeHTTP_delegated [OF assms])
  from delegated_flow_cases [of m e r ?reqID "url_path m r" ?s]
  show ?thesis
  proof
    assume "fst (delegated_flow m e r ?reqID (url_path m r) ?s) = Dispatch ServeGeneric
        \<and> calls (snd (delegated_flow m e r ?reqID (url_path m r) ?s)) = calls ?s
        \<and> cache_adds (snd (delegated_flow m e r ?reqID (url_path m r) ?s)) = cache_adds ?s"
    then show ?thesis
      unfolding run by (simp add: routing_state_traces)
  next
    assume "\<exists>b\<in>set (Backends m). \<exists>meth realm s1.
         calls s1 = calls ?s \<and> cache_adds s1 = cache_adds ?s
         \<and> delegated_flow m e r ?reqID (url_path m r) ?s
             = delegated_auth m e r ?reqID meth realm b s1"
    then obtain b meth realm s1 where b: "b \<in> set (Backends m)"
      and s1: "calls s1 = []" "cache_adds s1 = []"
      and auth: "ServeHTTP m e hdrs r = delegated_auth m e r ?reqID meth realm b s1"
      unfolding run by (auto simp: routing_state_traces)
    from delegated_auth_summary [of m e r meth realm b s1] obtain c where c:
      "calls (snd (delegated_auth m e r (GetRequestID e r) meth realm b s1)) = calls s1 @ [c]
       \<and> who c = backend_id b
       \<and> (cache_adds (snd (delegated_auth m e r (GetRequestID e r) meth realm b s1))
            = cache_adds s1
          \<or> cache_adds (snd (delegated_auth m e r (GetRequestID e r) meth realm b s1))
              = cache_adds s1 @ entry_of_call m e r c)
       \<and> (fst (delegated_auth m e r (GetRequestID e r) meth realm b s1) = Dispatch ServeLogin
            \<longrightarrow> error c = None \<and> call_ok c
               \<and> cache_adds (snd (delegated_auth m e r (GetRequestID e r) meth realm b s1))
                   = cache_adds s1 @ entry_of_call m e r c)
       \<and> (error c \<noteq> None \<and> code_of (result c) = None
            \<longrightarrow> fst (delegated_auth m e r (GetRequestID e r) meth realm b s1)
                  = Panic TypeAssertion)
       \<and> (\<forall>n. error c \<noteq> None \<and> code_of (result c) = Some n
            \<longrightarrow> fst (delegated_auth m e r (GetRequestID e r) meth realm b s1)
                  = Dispatch ServeGeneric
               \<and> opts (snd (delegated_auth m e r (GetRequestID e r) meth realm b s1))
                    ''status_code'' = Some (VInt n))
       \<and> (result c ''redirect_url'' = None
            \<longrightarrow> cache_adds (snd (delegated_auth m e r (GetRequestID e r) meth realm b s1))
                  = cache_adds s1 @ entry_of_call m e r c)" ..
    note c' = c [unfolded s1 append_Nil]
    have who: "\<exists>b\<in>set (Backends m). who c = backend_id b"
      using b c' [THEN conjunct2, THEN conjunct1] by (rule bexI [rotated])
    show ?thesis
      unfolding auth
    proof (rule disjI2, rule exI [of _ c], intro conjI)
      show "calls (snd (delegated_auth m e r (GetRequestID e r) meth realm b s1)) = [c]"
        by (rule c' [THEN conjunct1])
      show "\<exists>b\<in>set (Backends m). who c = backend_id b"
        by (rule who)
      show "cache_adds (snd (delegated_auth m e r (GetRequestID e r) meth realm b s1)) = []
          \<or> cache_adds (snd (delegated_auth m e r (GetRequestID e r) meth realm b s1))
              = entry_of_call m e r c"
        by (rule c' [THEN conjunct2, THEN conjunct2, THEN conjunct1])
      show "fst (delegated_auth m e r (GetRequestID e r) meth realm b s1) = Dispatch ServeLogin
          \<longrightarrow> error c = None \<and> call_ok c
             \<and> cache_adds (snd (delegated_auth m e r (GetRequestID e r) meth realm b s1))
                 = entry_of_call m e r c"
        by (rule c' [THEN conjunct2, THEN conjunct2, THEN conjunct2, THEN conjunct1])
      show "error c \<noteq> None \<and> code_of (result c) = None
          \<longrightarrow> fst (delegated_auth m e r (GetRequestID e r) meth realm b s1)
                = Panic TypeAssertion"
        by (rule c' [THEN conjunct2, THEN conjunct2, THEN conjunct2, THEN conjunct2,
                     THEN conjunct1])
      show "\<forall>n. error c \<noteq> None \<and> code_of (result c) = Some n
          \<longrightarrow> fst (delegated_auth m e r (GetRequestID e r) meth realm b s1)
                = Dispatch ServeGeneric
             \<and> opts (snd (delegated_auth m e r (GetRequestID e r) meth realm b s1))
                  ''status_code'' = Some (VInt n)"
        by (rule c' [THEN conjunct2, THEN conjunct2, THEN conjunct2, THEN conjunct2,
                     THEN conjunct2, THEN conjunct1])
      show "result c ''redirect_url'' = None
          \<longrightarrow> cache_adds (snd (delegated_auth m e r (GetRequestID e r) meth realm b s1))
                = entry_of_call m e r c"
        by (rule c' [THEN conjunct2, THEN conjunct2, THEN conjunct2, THEN conjunct2,
                     THEN conjunct2, THEN conjunct2])
    qed
  qed
qed

subsection \<open>The runs that call a backend\<close>

lemma login_flow_no_credentials:
  assumes "opts s ''authenticated'' = Some (VBool False)"
    and "\<forall>creds. ParseCredentials e r \<noteq> Inr (Some creds)"
  shows "calls (snd (login_flow m e r reqID s)) = calls s"
    and "cache_adds (snd (login_flow m e r reqID s)) = cache_adds s"
  using assms
  by (auto simp: login_flow_def Let_def split: sum.splits option.splits)

lemma route_other:
  assumes "\<not> delegated_prefix u" and "\<not> login_path u"
  shows "calls (snd (route m e r reqID u s)) = calls s"
    and "cache_adds (snd (route m e r reqID u s)) = cache_adds s"
  using assms
  by (simp_all add: route_def set_flow_def delegated_prefix_def login_path_def)

lemma ServeHTTP_cases:
  "(calls (snd (ServeHTTP m e hdrs r)) = [] \<and> cache_adds (snd (ServeHTTP m e hdrs r)) = [])
   \<or> (\<not> token_expired m r \<and> delegated_prefix (url_path m r))
   \<or> (\<not> token_accepted m r \<and> \<not> token_expired m r \<and> \<not> redirect_query r
      \<and> login_path (url_path m r) \<and> (\<exists>creds. ParseCredentials e r = Inr (Some creds)))"
proof (cases "token_expired m r")
  case True
  then show ?thesis by (simp add: ServeHTTP_expired initial_state_def)
next
  case live: False
  show ?thesis
  proof (cases "delegated_prefix (url_path m r)")
    case True
    with live show ?thesis by simp
  next
    case nd: False
    show ?thesis
    proof (cases "redirect_query r")
      case True
      with live nd show ?thesis
        by (simp add: ServeHTTP_not_expired routing_state_traces)
    next
      case nq: False
      have run: "ServeHTTP m e hdrs r
          = route m e r (GetRequestID e r) (url_path m r) (routing_state m e hdrs r)"
        using live nq by (simp add: ServeHTTP_not_expired)
      show ?thesis
      proof (cases "login_path (url_path m r)")
        case False
        with nd show ?thesis
          unfolding run by (simp add: route_other routing_state_traces)
      next
        case lp: True
        show ?thesis
        proof (cases "token_accepted m r")
          case True
          then show ?thesis
            unfolding run
            by (simp add: route_login [OF lp] login_flow_authenticated routing_state_opts
                          routing_state_traces)
        next
          case na: False
          show ?thesis
          proof (cases "\<exists>creds. ParseCredentials e r = Inr (Some creds)")
            case True
            with live nq lp na show ?thesis by simp
          next
            case False
            with na show ?thesis
              unfolding run
              by (simp add: route_login [OF lp] login_flow_no_credentials routing_state_opts
                            routing_state_traces)
          qed
        qed
      qed
    qed
  qed
qed

lemma call_ok_error:
  "call_ok c \<Longrightarrow> error c \<noteq> None \<Longrightarrow> code_of (result c) \<noteq> None"
  by (auto simp: call_ok_def)

lemma not_call_ok_error:
  "error c \<noteq> None \<Longrightarrow> code_of (result c) = Some n \<Longrightarrow> call_ok c"
  by (auto simp: call_ok_def)

lemma calls_realm:
  assumes "map who cs = map backend_id (filter (\<lambda>b. GetRealm b = realm) bs)"
    and "c \<in> set cs"
  shows "\<exists>b\<in>set bs. who c = backend_id b \<and> GetRealm b = realm"
proof -
  from assms(2) have "who c \<in> set (map who cs)" by simp
  with assms(1) have "who c \<in> set (map backend_id (filter (\<lambda>b. GetRealm b = realm) bs))"
    by simp
  then show ?thesis by auto
qed

lemma stamp_claims_ID:
  "ID (stamp_claims m e r reqID c0) = (if ID c0 = [] then reqID else ID c0)"
  by (simp add: stamp_claims_def Let_def)

lemma entry_of_call_mem:
  assumes "(k, v) \<in> set (entry_of_call m e r c)"
  shows "error c = None
    \<and> (\<exists>c0. claims_of (result c) = Some c0
           \<and> claims v = stamp_claims m e r (GetRequestID e r) c0
           \<and> k = ID (claims v))"
  using assms
  by (cases "error c"; cases "claims_of (result c)") (simp_all add: entry_of_call_def)

lemma entry_of_call_success:
  assumes "error c = None" and "claims_of (result c) = Some c0" and "who c = backend_id b"
  shows "entry_of_call m e r c
    = [(ID (stamp_claims m e r (GetRequestID e r) c0),
        new_entry b (stamp_claims m e r (GetRequestID e r) c0))]"
  using assms by (simp add: entry_of_call_def new_entry_def backend_id_def)

subsection \<open>The session cache after a run\<close>

lemma cache_after_append:
  "cache_after c (xs @ ys) = cache_after (cache_after c xs) ys"
  by (induction xs arbitrary: c) auto

lemma cache_after_other:
  "\<forall>kv\<in>set ys. fst kv \<noteq> k \<Longrightarrow> cache_after c ys k = c k"
  by (induction ys arbitrary: c) (auto simp: SessionCache_Add_def)

lemma cache_after_snoc:
  "SessionCache_Get (cache_after c (pre @ [(k, v)])) k = Some v"
  by (simp add: cache_after_append SessionCache_Get_def SessionCache_Add_def)

lemma cache_after_last_write:
  assumes "\<forall>kv\<in>set post. fst kv \<noteq> k"
  shows "SessionCache_Get (cache_after c (pre @ (k, v) # post)) k = Some v"
proof -
  have "cache_after c (pre @ (k, v) # post)
          = cache_after (cache_after c (pre @ [(k, v)])) post"
    by (simp add: cache_after_append)
  with cache_after_other [OF assms, of "cache_after c (pre @ [(k, v)])"]
       cache_after_snoc [of c pre k v]
  show ?thesis by (simp add: SessionCache_Get_def)
qed


subsection \<open>An accepted token\<close>

text \<open>
  C1, as the code has it. For a request whose token the validator accepts, the handler
  sets \<^verbatim>\<open>authenticated\<close> to true when the validator returns (line 132); when the path
  is not under one of the delegated-backend prefixes \<^verbatim>\<open>saml\<close>, \<^verbatim>\<open>x509\<close> and
  \<^verbatim>\<open>oauth2\<close>, the flag is still true when the handling ends and no backend's
  \<^verbatim>\<open>Authenticate\<close> has been called.
\<close>

theorem accepted_token_skips_backends:
  assumes "token_accepted m r"
  shows "opts (token_state m e hdrs r) ''authenticated'' = Some (VBool True)
       \<and> (\<not> delegated_prefix (url_path m r)
            \<longrightarrow> opts (snd (ServeHTTP m e hdrs r)) ''authenticated'' = Some (VBool True)
              \<and> calls (snd (ServeHTTP m e hdrs r)) = [])"
  using assms route_static [of "url_path m r" "routing_state m e hdrs r" m e r "GetRequestID e r"]
  by (simp add: ServeHTTP_not_expired token_accepted_not_expired routing_state_opts
                routing_state_traces token_state_opts)

text \<open>
  A witness for C1 as the code has it: credentials posted to \<^verbatim>\<open>/auth/login\<close> with an
  accepted token, on a portal with two backends of the credentials' realm.
\<close>

theorem accepted_token_skips_backends_witness:
  "token_accepted (corp_portal (accepts ''alice'') refuses valid_token) login_post
   \<and> \<not> delegated_prefix (url_path (corp_portal (accepts ''alice'') refuses valid_token) login_post)
   \<and> opts (snd (ServeHTTP (corp_portal (accepts ''alice'') refuses valid_token) ex_externals
                   Map.empty login_post)) ''authenticated'' = Some (VBool True)
   \<and> calls (snd (ServeHTTP (corp_portal (accepts ''alice'') refuses valid_token) ex_externals
                    Map.empty login_post)) = []"
  using accepted_token_skips_backends
    [where m = "corp_portal (accepts ''alice'') refuses valid_token" and r = login_post
       and e = ex_externals and hdrs = Map.empty]
  by (simp add: token_accepted_def url_path_def TrimPrefix_def HasPrefix_def
                delegated_prefix_def ex_defs)

text \<open>
  C1 as it is stated fails on the delegated-backend paths: a POST of
  \<^verbatim>\<open>/auth/oauth2/google\<close> with an accepted token calls the backend of that method and
  realm, and when the backend refuses, \<^verbatim>\<open>authenticated\<close> ends false.
\<close>

theorem accepted_token_counterexample:
  "token_accepted
     (ex_portal [ex_backend ''google-oauth'' ''google'' ''oauth2''
                   ([''code'' \<mapsto> VInt 401], Some ''access denied'')] valid_token)
     (ex_request ''POST'' ''/auth/oauth2/google'' Map.empty None)
   \<and> map who (calls (snd (ServeHTTP
        (ex_portal [ex_backend ''google-oauth'' ''google'' ''oauth2''
                      ([''code'' \<mapsto> VInt 401], Some ''access denied'')] valid_token)
        ex_externals Map.empty
        (ex_request ''POST'' ''/auth/oauth2/google'' Map.empty None))))
      = [(''google-oauth'', ''google'', ''oauth2'')]
   \<and> opts (snd (ServeHTTP
        (ex_portal [ex_backend ''google-oauth'' ''google'' ''oauth2''
                      ([''code'' \<mapsto> VInt 401], Some ''access denied'')] valid_token)
        ex_externals Map.empty
        (ex_request ''POST'' ''/auth/oauth2/google'' Map.empty None))) ''authenticated''
      = Some (VBool False)"
  by (simp add: token_accepted_def run_defs ex_defs)

subsection \<open>An expired token\<close>

text \<open>
  C4. When the validator rejects the token with the error \<^verbatim>\<open>[Token is expired]\<close>, the
  handler returns \<^verbatim>\<open>handlers.ServeSessionLoginRedirect\<close> at once: no backend is called,
  nothing is added to the session cache, the response writer is as it was received (no
  cookie from the query parameters), and no flow has been set.
\<close>

theorem expired_token_redirects_to_login:
  assumes "token_expired m r"
  shows "fst (ServeHTTP m e hdrs r) = Dispatch ServeSessionLoginRedirect
       \<and> calls (snd (ServeHTTP m e hdrs r)) = []
       \<and> cache_adds (snd (ServeHTTP m e hdrs r)) = []
       \<and> resp_writer (snd (ServeHTTP m e hdrs r)) = \<lparr>headers = hdrs, written = None\<rparr>
       \<and> opts (snd (ServeHTTP m e hdrs r)) ''flow'' = None"
  using assms
  by (simp add: ServeHTTP_expired initial_state_def initial_opts_keys)

text \<open>A witness for C4: a POST of credentials to \<^verbatim>\<open>/auth/login\<close> with an expired token,
  on a portal with a backend of the credentials' realm.\<close>

theorem expired_token_redirects_to_login_witness:
  "token_expired
     (ex_portal [ex_backend ''ldap-corp'' ''corp'' ''ldap''
                   ([''claims'' \<mapsto> VClaims (Some (ex_claims ''alice''))], None)] expired_token)
     (ex_request ''POST'' ''/auth/login'' Map.empty None)
   \<and> fst (ServeHTTP
        (ex_portal [ex_backend ''ldap-corp'' ''corp'' ''ldap''
                      ([''claims'' \<mapsto> VClaims (Some (ex_claims ''alice''))], None)] expired_token)
        ex_externals Map.empty
        (ex_request ''POST'' ''/auth/login'' Map.empty None))
      = Dispatch ServeSessionLoginRedirect
   \<and> calls (snd (ServeHTTP
        (ex_portal [ex_backend ''ldap-corp'' ''corp'' ''ldap''
                      ([''claims'' \<mapsto> VClaims (Some (ex_claims ''alice''))], None)] expired_token)
        ex_externals Map.empty
        (ex_request ''POST'' ''/auth/login'' Map.empty None))) = []"
  using expired_token_redirects_to_login
    [where m = "ex_portal [ex_backend ''ldap-corp'' ''corp'' ''ldap''
                   ([''claims'' \<mapsto> VClaims (Some (ex_claims ''alice''))], None)] expired_token"
       and r = "ex_request ''POST'' ''/auth/login'' Map.empty None"
       and e = ex_externals and hdrs = Map.empty]
  by (simp add: token_expired_def ex_defs)

subsection \<open>The redirect parameter\<close>

text \<open>
  C5, as the code has it. A GET request with a \<^verbatim>\<open>redirect_url\<close> parameter, on a path
  that is not under a delegated-backend prefix, whose token the validator has not
  reported expired, ends there: the handler returns nil, and the response was written
  with status 302 and, among its headers, the redirect cookie with the parameter's first
  value and the configured attributes, and the portal's root as the location. No backend
  was called and no flow was set.
\<close>

theorem redirect_query_normalised:
  assumes "\<not> token_expired m r"
    and "Method r = ''GET''"
    and "URL_Query r ''redirect_url'' = Some (v, vs)"
    and "\<not> delegated_prefix (url_path m r)"
  shows "fst (ServeHTTP m e hdrs r) = ReturnNil
       \<and> written (resp_writer (snd (ServeHTTP m e hdrs r)))
           = Some (302, hdrs(''Set-Cookie'' \<mapsto>
                               redirectToToken @ ''='' @ v @ '';'' @ Cookies_GetAttributes m,
                             ''Location'' \<mapsto> AuthURLPath m))
       \<and> calls (snd (ServeHTTP m e hdrs r)) = []
       \<and> opts (snd (ServeHTTP m e hdrs r)) ''flow'' = None"
  using assms
  by (simp add: ServeHTTP_not_expired redirect_query_def routing_state_traces routing_state_opts)
     (simp add: routing_state_def query_params_def token_state_traces Header_Set_def
                WriteHeader_def)

text \<open>A witness for C5 as the code has it: a GET of
  \<^verbatim>\<open>/auth/logout?redirect_url=https://app.example/\<close> with an accepted token.\<close>

theorem redirect_query_normalised_witness:
  "\<not> token_expired (ex_portal [] valid_token)
        (ex_request ''GET'' ''/auth/logout''
           [''redirect_url'' \<mapsto> (''https://app.example/'', [])] None)
   \<and> \<not> delegated_prefix
        (url_path (ex_portal [] valid_token)
           (ex_request ''GET'' ''/auth/logout''
              [''redirect_url'' \<mapsto> (''https://app.example/'', [])] None))
   \<and> fst (ServeHTTP (ex_portal [] valid_token) ex_externals Map.empty
        (ex_request ''GET'' ''/auth/logout''
           [''redirect_url'' \<mapsto> (''https://app.example/'', [])] None)) = ReturnNil
   \<and> written (resp_writer (snd (ServeHTTP (ex_portal [] valid_token) ex_externals Map.empty
        (ex_request ''GET'' ''/auth/logout''
           [''redirect_url'' \<mapsto> (''https://app.example/'', [])] None))))
      = Some (302, [''Set-Cookie'' \<mapsto>
                      ''AUTH_PORTAL_REDIRECT_URL=https://app.example/;Path=/;Secure'',
                    ''Location'' \<mapsto> ''/auth''])"
  using redirect_query_normalised
    [where m = "ex_portal [] valid_token"
       and r = "ex_request ''GET'' ''/auth/logout''
                  [''redirect_url'' \<mapsto> (''https://app.example/'', [])] None"
       and e = ex_externals and hdrs = Map.empty
       and v = "''https://app.example/''" and vs = "[]"]
  by (simp add: token_expired_def url_path_def TrimPrefix_def HasPrefix_def
                delegated_prefix_def redirectToToken_def ex_defs)

text \<open>
  C5 as it is stated fails when the token is expired: a GET of
  \<^verbatim>\<open>/auth/login?redirect_url=https://app.example/\<close> with an expired token is handed to
  \<^verbatim>\<open>handlers.ServeSessionLoginRedirect\<close>; the handler wrote no status and set no cookie.
\<close>

theorem redirect_query_counterexample:
  "fst (ServeHTTP (ex_portal [] expired_token) ex_externals Map.empty
        (ex_request ''GET'' ''/auth/login''
           [''redirect_url'' \<mapsto> (''https://app.example/'', [])] None))
     = Dispatch ServeSessionLoginRedirect
   \<and> written (resp_writer (snd (ServeHTTP (ex_portal [] expired_token) ex_externals Map.empty
        (ex_request ''GET'' ''/auth/login''
           [''redirect_url'' \<mapsto> (''https://app.example/'', [])] None)))) = None
   \<and> headers (resp_writer (snd (ServeHTTP (ex_portal [] expired_token) ex_externals Map.empty
        (ex_request ''GET'' ''/auth/login''
           [''redirect_url'' \<mapsto> (''https://app.example/'', [])] None)))) ''Set-Cookie'' = None"
  by (simp add: run_defs ex_defs)

subsection \<open>A malformed delegated-backend path\<close>

text \<open>
  C8, as the code has it. A request whose path is under \<^verbatim>\<open>saml\<close>, \<^verbatim>\<open>x509\<close> or
  \<^verbatim>\<open>oauth2\<close> and splits into fewer than two segments, and whose token the validator
  has not reported expired, is handed to \<^verbatim>\<open>handlers.ServeGeneric\<close> with status code
  400, flow \<^verbatim>\<open>malformed_backend\<close> and \<^verbatim>\<open>authenticated\<close> false, and no backend is called.
\<close>

theorem malformed_backend_route:
  assumes "\<not> token_expired m r"
    and "delegated_prefix (url_path m r)"
    and "length (strings_Split (url_path m r) CHR ''/'') < 2"
  shows "fst (ServeHTTP m e hdrs r) = Dispatch ServeGeneric
       \<and> opts (snd (ServeHTTP m e hdrs r)) ''status_code'' = Some (VInt 400)
       \<and> opts (snd (ServeHTTP m e hdrs r)) ''flow'' = Some (VStr ''malformed_backend'')
       \<and> opts (snd (ServeHTTP m e hdrs r)) ''authenticated'' = Some (VBool False)
       \<and> calls (snd (ServeHTTP m e hdrs r)) = []"
  using assms
  by (simp add: ServeHTTP_not_expired route_delegated delegated_flow_def routing_state_traces)

text \<open>A witness for C8 as the code has it: a GET of \<^verbatim>\<open>/auth/saml\<close> with an accepted
  token, on a portal with a SAML backend.\<close>

theorem malformed_backend_route_witness:
  "\<not> token_expired
       (ex_portal [ex_backend ''azure-saml'' ''azure'' ''saml'' (accepts ''alice'')] valid_token)
       (ex_request ''GET'' ''/auth/saml'' Map.empty None)
   \<and> delegated_prefix
        (url_path
           (ex_portal [ex_backend ''azure-saml'' ''azure'' ''saml'' (accepts ''alice'')] valid_token)
           (ex_request ''GET'' ''/auth/saml'' Map.empty None))
   \<and> length (strings_Split
        (url_path
           (ex_portal [ex_backend ''azure-saml'' ''azure'' ''saml'' (accepts ''alice'')] valid_token)
           (ex_request ''GET'' ''/auth/saml'' Map.empty None)) CHR ''/'') < 2
   \<and> fst (ServeHTTP
        (ex_portal [ex_backend ''azure-saml'' ''azure'' ''saml'' (accepts ''alice'')] valid_token)
        ex_externals Map.empty
        (ex_request ''GET'' ''/auth/saml'' Map.empty None)) = Dispatch ServeGeneric
   \<and> opts (snd (ServeHTTP
        (ex_portal [ex_backend ''azure-saml'' ''azure'' ''saml'' (accepts ''alice'')] valid_token)
        ex_externals Map.empty
        (ex_request ''GET'' ''/auth/saml'' Map.empty None))) ''status_code''
      = Some (VInt 400)
   \<and> opts (snd (ServeHTTP
        (ex_portal [ex_backend ''azure-saml'' ''azure'' ''saml'' (accepts ''alice'')] valid_token)
        ex_externals Map.empty
        (ex_request ''GET'' ''/auth/saml'' Map.empty None))) ''authenticated''
      = Some (VBool False)"
  using malformed_backend_route
    [where m = "ex_portal [ex_backend ''azure-saml'' ''azure'' ''saml'' (accepts ''alice'')]
                  valid_token"
       and r = "ex_request ''GET'' ''/auth/saml'' Map.empty None"
       and e = ex_externals and hdrs = Map.empty]
  by (simp add: token_expired_def url_path_def TrimPrefix_def HasPrefix_def
                delegated_prefix_def ex_defs)

text \<open>
  C8 as it is stated fails when the token is expired: a GET of \<^verbatim>\<open>/auth/saml\<close>, a path
  under a delegated prefix with one segment, with an expired token is handed to
  \<^verbatim>\<open>handlers.ServeSessionLoginRedirect\<close>, with no status code and no flow set.
\<close>

theorem malformed_backend_counterexample:
  "delegated_prefix
     (url_path
        (ex_portal [ex_backend ''azure-saml'' ''azure'' ''saml'' (accepts ''alice'')] expired_token)
        (ex_request ''GET'' ''/auth/saml'' Map.empty None))
   \<and> length (strings_Split
        (url_path
           (ex_portal [ex_backend ''azure-saml'' ''azure'' ''saml'' (accepts ''alice'')]
              expired_token)
           (ex_request ''GET'' ''/auth/saml'' Map.empty None)) CHR ''/'') < 2
   \<and> fst (ServeHTTP
        (ex_portal [ex_backend ''azure-saml'' ''azure'' ''saml'' (accepts ''alice'')] expired_token)
        ex_externals Map.empty
        (ex_request ''GET'' ''/auth/saml'' Map.empty None)) = Dispatch ServeSessionLoginRedirect
   \<and> opts (snd (ServeHTTP
        (ex_portal [ex_backend ''azure-saml'' ''azure'' ''saml'' (accepts ''alice'')] expired_token)
        ex_externals Map.empty
        (ex_request ''GET'' ''/auth/saml'' Map.empty None))) ''status_code'' = None
   \<and> opts (snd (ServeHTTP
        (ex_portal [ex_backend ''azure-saml'' ''azure'' ''saml'' (accepts ''alice'')] expired_token)
        ex_externals Map.empty
        (ex_request ''GET'' ''/auth/saml'' Map.empty None))) ''flow'' = None"
  by (simp add: run_defs ex_defs)


end
